theory Spec2Isabelle
  imports Main "HOL-Library.Log_Nat"
begin

section \<open>JavaScript values\<close>

text \<open>
  The tool handlers of \<^verbatim>\<open>index.ts\<close> read their arguments as \<^verbatim>\<open>args as any\<close> and build
  request bodies as object literals, so the model works on untyped JavaScript values.
  A number is an IEEE 754 binary64 value: a finite one is kept as the rational it
  denotes (the sign of zero is not kept: nothing below divides by a zero or prints its
  sign, and \<^verbatim>\<open>JSON.stringify(-0)\<close> is \<^verbatim>\<open>"0"\<close>), the others are \<open>NaN\<close> and the two
  infinities. An object is the list of its own properties in insertion order.
\<close>

datatype jsnum = Finite rat | NaN | PosInf | NegInf

datatype jsval = Undefined | Null | Bool bool | Num jsnum | Str string
  | Arr "jsval list" | Obj "(string \<times> jsval) list"

text \<open>\<^verbatim>\<open>ToBoolean\<close>: what \<^verbatim>\<open>if (v)\<close>, \<^verbatim>\<open>v || w\<close> and \<^verbatim>\<open>v ? a : b\<close> test.\<close>

fun truthy :: "jsval \<Rightarrow> bool" where
  "truthy Undefined = False"
| "truthy Null = False"
| "truthy (Bool b) = b"
| "truthy (Num (Finite x)) = (x \<noteq> 0)"
| "truthy (Num NaN) = False"
| "truthy (Num PosInf) = True"
| "truthy (Num NegInf) = True"
| "truthy (Str s) = (s \<noteq> [])"
| "truthy (Arr xs) = True"
| "truthy (Obj ps) = True"

text \<open>\<^verbatim>\<open>a || b\<close> on values.\<close>

definition js_or :: "jsval \<Rightarrow> jsval \<Rightarrow> jsval" where
  "js_or a b = (if truthy a then a else b)"

text \<open>
  \<open>get_prop ps k\<close> reads property \<open>k\<close> of an object with properties \<open>ps\<close>: a missing key
  reads as \<^verbatim>\<open>undefined\<close>. \<open>set_prop\<close> is the assignment \<^verbatim>\<open>o.k = v\<close>.
\<close>

definition get_prop :: "(string \<times> jsval) list \<Rightarrow> string \<Rightarrow> jsval" where
  "get_prop ps k = (case map_of ps k of None \<Rightarrow> Undefined | Some v \<Rightarrow> v)"

fun set_prop :: "(string \<times> jsval) list \<Rightarrow> string \<Rightarrow> jsval \<Rightarrow> (string \<times> jsval) list" where
  "set_prop [] k v = [(k, v)]"
| "set_prop ((k', v') # ps) k v = (if k' = k then (k, v) # ps else (k', v') # set_prop ps k v)"

text \<open>Total readers used to state properties of a built value.\<close>

fun own_keys :: "jsval \<Rightarrow> string list" where
  "own_keys (Obj ps) = map fst ps"
| "own_keys v = []"

definition has_key :: "jsval \<Rightarrow> string \<Rightarrow> bool" where
  "has_key v k = (k \<in> set (own_keys v))"

fun get_field :: "jsval \<Rightarrow> string \<Rightarrow> jsval" where
  "get_field (Obj ps) k = get_prop ps k"
| "get_field v k = Undefined"

text \<open>
  What \<^verbatim>\<open>JSON.stringify\<close> keeps of a value, as a tree: a property whose value is
  \<^verbatim>\<open>undefined\<close> is left out, an \<^verbatim>\<open>undefined\<close> array element and a non-finite number
  become \<^verbatim>\<open>null\<close>. (Of \<^verbatim>\<open>undefined\<close> itself \<^verbatim>\<open>JSON.stringify\<close> returns \<^verbatim>\<open>undefined\<close>.)
\<close>

fun to_json :: "jsval \<Rightarrow> jsval"
  and to_json_props :: "(string \<times> jsval) list \<Rightarrow> (string \<times> jsval) list"
  and to_json_elems :: "jsval list \<Rightarrow> jsval list" where
  "to_json (Obj ps) = Obj (to_json_props ps)"
| "to_json (Arr xs) = Arr (to_json_elems xs)"
| "to_json (Num (Finite x)) = Num (Finite x)"
| "to_json (Num NaN) = Null"
| "to_json (Num PosInf) = Null"
| "to_json (Num NegInf) = Null"
| "to_json Undefined = Undefined"
| "to_json Null = Null"
| "to_json (Bool b) = Bool b"
| "to_json (Str s) = Str s"
| "to_json_props [] = []"
| "to_json_props ((k, v) # ps) =
     (if v = Undefined then to_json_props ps else (k, to_json v) # to_json_props ps)"
| "to_json_elems [] = []"
| "to_json_elems (v # vs) = (if v = Undefined then Null else to_json v) # to_json_elems vs"

section \<open>Transaction normalizer\<close>

text \<open>
  The \<^verbatim>\<open>neutron_create_transaction\<close> case of the tool handler (\<^verbatim>\<open>src/index.ts\<close>), up to
  the call of \<^verbatim>\<open>client.createTransaction(body)\<close>: the local \<^verbatim>\<open>destReqDetails\<close>, \<^verbatim>\<open>kyc\<close>
  and \<^verbatim>\<open>sourceOfFunds\<close>, and the request \<^verbatim>\<open>body\<close> built from the arguments \<open>a\<close>. A
  conditional spread \<^verbatim>\<open>...(c ? {k: v} : {})\<close> adds the key or nothing.
\<close>

definition destReqDetails :: "(string \<times> jsval) list \<Rightarrow> (string \<times> jsval) list" where
  "destReqDetails a =
    (let d0 = [];
         d1 = (if truthy (get_prop a ''paymentRequest'')
               then set_prop d0 ''paymentRequest'' (get_prop a ''paymentRequest'') else d0);
         d2 = (if truthy (get_prop a ''lnurl'') then set_prop d1 ''lnurl'' (get_prop a ''lnurl'') else d1);
         d3 = (if truthy (get_prop a ''address'') then set_prop d2 ''address'' (get_prop a ''address'') else d2);
         d4 = (if truthy (get_prop a ''bankAcctNum'')
               then set_prop d3 ''bankAcctNum'' (get_prop a ''bankAcctNum'') else d3);
         d5 = (if truthy (get_prop a ''institutionCode'')
               then set_prop d4 ''institutionCode'' (get_prop a ''institutionCode'') else d4)
     in d5)"

definition kyc :: "(string \<times> jsval) list \<Rightarrow> jsval" where
  "kyc a =
    (if truthy (js_or (get_prop a ''recipientName'') (get_prop a ''countryCode''))
     then Obj [(''type'', js_or (get_prop a ''kycType'') (Str ''individual'')),
               (''details'', Obj [(''legalFullName'', get_prop a ''recipientName''),
                                  (''countryCode'', get_prop a ''countryCode'')])]
     else Undefined)"

definition sourceOfFunds :: "(string \<times> jsval) list \<Rightarrow> jsval" where
  "sourceOfFunds a =
    (if truthy (get_prop a ''bankAcctNum'')
     then Obj [(''purpose'', Num (Finite 1)), (''source'', Num (Finite 5)),
               (''relationship'', Num (Finite 3))]
     else Undefined)"

definition create_transaction_body :: "(string \<times> jsval) list \<Rightarrow> jsval" where
  "create_transaction_body a =
    Obj ([(''extRefId'', get_prop a ''extRefId''),
          (''sourceReq'', Obj ([(''ccy'', get_prop a ''sourceCcy''),
                               (''method'', get_prop a ''sourceMethod'')]
                              @ (if get_prop a ''sourceAmount'' \<noteq> Undefined
                                 then [(''amtRequested'', get_prop a ''sourceAmount'')] else [])
                              @ [(''reqDetails'', Obj [])])),
          (''destReq'', Obj ([(''ccy'', get_prop a ''destCcy''),
                             (''method'', get_prop a ''destMethod'')]
                            @ (if get_prop a ''destAmount'' \<noteq> Undefined
                               then [(''amtRequested'', get_prop a ''destAmount'')] else [])
                            @ [(''reqDetails'', Obj (destReqDetails a))]
                            @ (if truthy (kyc a) then [(''kyc'', kyc a)] else [])))]
         @ (if truthy (sourceOfFunds a) then [(''sourceOfFunds'', sourceOfFunds a)] else []))"

section \<open>Number arithmetic\<close>

text \<open>
  JavaScript numbers are IEEE 754 binary64 values and \<^verbatim>\<open>/\<close> and \<^verbatim>\<open>*\<close> round their exact
  result to the nearest such value, ties to the even significand. \<open>binade x\<close> is the
  exponent \<open>e\<close> with \<open>2\<^sup>e \<le> \<bar>x\<bar> < 2\<^sup>e\<^sup>+\<^sup>1\<close>; a binary64 value with that exponent is a
  multiple of \<open>2\<^sup>e\<^sup>-\<^sup>5\<^sup>2\<close> (53 significant bits), the subnormal ones share the spacing of
  exponent \<open>-1022\<close>, and a result that rounds to \<open>2\<^sup>1\<^sup>0\<^sup>2\<^sup>4\<close> or beyond is an infinity.
\<close>

definition binade :: "rat \<Rightarrow> int" where
  "binade x =
    (let (p, q) = quotient_of \<bar>x\<bar>; d = bitlen p - bitlen q
     in if power_int 2 d \<le> \<bar>x\<bar> then d else d - 1)"

definition round_ties_even :: "rat \<Rightarrow> int" where
  "round_ties_even m =
    (let n = \<lfloor>m\<rfloor>; r = m - of_int n
     in if r < 1 / 2 then n else if 1 / 2 < r then n + 1 else if even n then n else n + 1)"

definition round_binary64 :: "rat \<Rightarrow> jsnum" where
  "round_binary64 x =
    (if x = 0 then Finite 0
     else let e = max (binade x) (- 1022);
              ulp = power_int 2 (e - 52);
              r = of_int (round_ties_even (x / ulp)) * ulp
          in if 2 ^ 1024 \<le> \<bar>r\<bar> then (if 0 < x then PosInf else NegInf) else Finite r)"

text \<open>
  \<^verbatim>\<open>x / d\<close> and \<^verbatim>\<open>x * d\<close> for a number \<open>x\<close> and a finite constant \<open>d > 0\<close> (the handler
  only divides and multiplies by \<^verbatim>\<open>100_000_000\<close>).
\<close>

fun num_div :: "jsnum \<Rightarrow> rat \<Rightarrow> jsnum" where
  "num_div (Finite x) d = round_binary64 (x / d)"
| "num_div NaN d = NaN"
| "num_div PosInf d = PosInf"
| "num_div NegInf d = NegInf"

fun num_mul :: "jsnum \<Rightarrow> rat \<Rightarrow> jsnum" where
  "num_mul (Finite x) d = round_binary64 (x * d)"
| "num_mul NaN d = NaN"
| "num_mul PosInf d = PosInf"
| "num_mul NegInf d = NegInf"

text \<open>\<^verbatim>\<open>Math.round\<close>: the nearest integer, a tie going up.\<close>

fun math_round :: "jsnum \<Rightarrow> jsnum" where
  "math_round (Finite x) = Finite (of_int \<lfloor>x + 1 / 2\<rfloor>)"
| "math_round NaN = NaN"
| "math_round PosInf = PosInf"
| "math_round NegInf = NegInf"

text \<open>The comparison \<^verbatim>\<open>a < b\<close> of two numbers: false when either is \<open>NaN\<close>.\<close>

fun num_less :: "jsnum \<Rightarrow> jsnum \<Rightarrow> bool" where
  "num_less (Finite a) (Finite b) = (a < b)"
| "num_less (Finite a) PosInf = True"
| "num_less NegInf (Finite b) = True"
| "num_less NegInf PosInf = True"
| "num_less a b = False"

section \<open>Errors and conversions of the language\<close>

text \<open>
  Everything the code throws, and everything the platform throws under it, is an
  \<^verbatim>\<open>Error\<close> object; the handler only ever reads its \<^verbatim>\<open>message\<close>.
\<close>

datatype js_error = Error string | TypeError string | SyntaxError string

fun message :: "js_error \<Rightarrow> string" where
  "message (Error m) = m"
| "message (TypeError m) = m"
| "message (SyntaxError m) = m"

text \<open>
  Library functions the code calls and the repository does not define are parameters:
  the printing and parsing of numbers, the parsing of dates, HMAC-SHA256 with a
  hexadecimal digest, \<^verbatim>\<open>encodeURIComponent\<close>, and the percent-encoding that
  \<^verbatim>\<open>URLSearchParams\<close> applies to a name or a value.
\<close>

record runtime =
  number_to_string :: "jsnum \<Rightarrow> string"
  string_to_number :: "string \<Rightarrow> jsnum"
  date_parse :: "string \<Rightarrow> jsnum"
  hmac_sha256_hex :: "string \<Rightarrow> string \<Rightarrow> string"
  encodeURIComponent :: "string \<Rightarrow> string"
  form_urlencode :: "string \<Rightarrow> string"

text \<open>
  Property access \<^verbatim>\<open>v.k\<close>: a \<^verbatim>\<open>TypeError\<close> on \<^verbatim>\<open>undefined\<close> and \<^verbatim>\<open>null\<close>. None of the
  property names the code reads exists on a string, a number, a boolean or an array.
  \<open>member_opt\<close> is the optional chaining \<^verbatim>\<open>v?.k\<close>.
\<close>

fun member :: "jsval \<Rightarrow> string \<Rightarrow> js_error + jsval" where
  "member Undefined k =
     Inl (TypeError (''Cannot read properties of undefined (reading '' @ [CHR 0x27] @ k
                     @ [CHR 0x27] @ '')''))"
| "member Null k =
     Inl (TypeError (''Cannot read properties of null (reading '' @ [CHR 0x27] @ k
                     @ [CHR 0x27] @ '')''))"
| "member (Obj ps) k = Inr (get_prop ps k)"
| "member v k = Inr Undefined"

fun member_opt :: "jsval \<Rightarrow> string \<Rightarrow> jsval" where
  "member_opt (Obj ps) k = get_prop ps k"
| "member_opt v k = Undefined"

text \<open>
  \<^verbatim>\<open>ToString\<close>, as a template literal and \<^verbatim>\<open>String(v)\<close> apply it. A plain object prints
  as \<^verbatim>\<open>[object Object]\<close>, unless it has an own property \<^verbatim>\<open>toString\<close>, which parsed JSON
  cannot make callable: then the conversion throws. An array joins its elements with
  commas, \<^verbatim>\<open>undefined\<close> and \<^verbatim>\<open>null\<close> elements printing as nothing.
\<close>

fun to_string :: "runtime \<Rightarrow> jsval \<Rightarrow> js_error + string"
  and join_elems :: "runtime \<Rightarrow> jsval list \<Rightarrow> js_error + string" where
  "to_string rt Undefined = Inr ''undefined''"
| "to_string rt Null = Inr ''null''"
| "to_string rt (Bool b) = Inr (if b then ''true'' else ''false'')"
| "to_string rt (Num n) = Inr (number_to_string rt n)"
| "to_string rt (Str s) = Inr s"
| "to_string rt (Obj ps) =
     (if ''toString'' \<in> set (map fst ps)
      then Inl (TypeError ''Cannot convert object to primitive value'')
      else Inr ''[object Object]'')"
| "to_string rt (Arr xs) = join_elems rt xs"
| "join_elems rt [] = Inr []"
| "join_elems rt (v # vs) =
     (case (if v = Undefined \<or> v = Null then Inr [] else to_string rt v) of
        Inl e \<Rightarrow> Inl e
      | Inr s \<Rightarrow>
          (if vs = [] then Inr s
           else case join_elems rt vs of Inl e \<Rightarrow> Inl e | Inr t \<Rightarrow> Inr (s @ '','' @ t)))"

text \<open>\<^verbatim>\<open>ToNumber\<close>, as \<^verbatim>\<open>/\<close> and \<^verbatim>\<open>*\<close> apply it to an operand.\<close>

fun to_number :: "runtime \<Rightarrow> jsval \<Rightarrow> js_error + jsnum" where
  "to_number rt Undefined = Inr NaN"
| "to_number rt Null = Inr (Finite 0)"
| "to_number rt (Bool b) = Inr (Finite (if b then 1 else 0))"
| "to_number rt (Num n) = Inr n"
| "to_number rt (Str s) = Inr (string_to_number rt s)"
| "to_number rt v =
     (case to_string rt v of Inl e \<Rightarrow> Inl e | Inr s \<Rightarrow> Inr (string_to_number rt s))"

text \<open>
  \<^verbatim>\<open>new Date(v).getTime()\<close>: a string is parsed, a number is a time value (an integer
  number of milliseconds of magnitude at most \<open>8.64 \<times> 10\<^sup>1\<^sup>5\<close>, anything else being
  \<open>NaN\<close>), an object is converted to a string first.
\<close>

fun time_clip :: "jsnum \<Rightarrow> jsnum" where
  "time_clip (Finite x) =
     (if \<bar>x\<bar> \<le> 8640000000000000
      then Finite (of_int (if 0 \<le> x then \<lfloor>x\<rfloor> else \<lceil>x\<rceil>)) else NaN)"
| "time_clip n = NaN"

fun date_get_time :: "runtime \<Rightarrow> jsval \<Rightarrow> js_error + jsnum" where
  "date_get_time rt (Str s) = Inr (date_parse rt s)"
| "date_get_time rt (Num n) = Inr (time_clip n)"
| "date_get_time rt Undefined = Inr NaN"
| "date_get_time rt Null = Inr (Finite 0)"
| "date_get_time rt (Bool b) = Inr (Finite (if b then 1 else 0))"
| "date_get_time rt v =
     (case to_string rt v of Inl e \<Rightarrow> Inl e | Inr s \<Rightarrow> Inr (date_parse rt s))"

section \<open>The network and the clock\<close>

text \<open>
  A request as \<^verbatim>\<open>fetch\<close> receives it. Its body is kept as the JSON tree whose text
  \<^verbatim>\<open>JSON.stringify\<close> sends (\<open>None\<close>: no body). Of a response the code reads \<^verbatim>\<open>ok\<close>,
  \<^verbatim>\<open>status\<close>, \<^verbatim>\<open>statusText\<close> and \<^verbatim>\<open>json()\<close>, which rejects when the body is not JSON
  (\<open>None\<close>).
\<close>

record http_request =
  url :: string
  http_method :: string
  headers :: "(string \<times> string) list"
  body :: "jsval option"

record http_response =
  status :: nat
  statusText :: string
  json :: "jsval option"

definition ok :: "http_response \<Rightarrow> bool" where
  "ok r = (200 \<le> status r \<and> status r \<le> 299)"

text \<open>
  The world outside the process: the clock \<^verbatim>\<open>Date.now()\<close>, the requests sent so far,
  and the remote side, which answers a request, given the earlier ones, with a response
  or a network failure after some milliseconds. One tool call runs at a time.
\<close>

record world =
  now :: int
  sent :: "http_request list"
  remote :: "http_request list \<Rightarrow> http_request \<Rightarrow> (js_error + http_response) \<times> nat"

definition fetch :: "http_request \<Rightarrow> world \<Rightarrow> (js_error + http_response) \<times> world" where
  "fetch req w =
    (let (outcome, elapsed) = remote w (sent w) req
     in (outcome, w\<lparr>now := now w + int elapsed, sent := sent w @ [req]\<rparr>))"

text \<open>\<^verbatim>\<open>await response.json()\<close> and \<^verbatim>\<open>await response.json().catch(() => ({}))\<close>.\<close>

definition response_json :: "http_response \<Rightarrow> js_error + jsval" where
  "response_json r =
    (case json r of None \<Rightarrow> Inl (SyntaxError ''Unexpected token in JSON'') | Some v \<Rightarrow> Inr v)"

definition response_json_or_empty :: "http_response \<Rightarrow> jsval" where
  "response_json_or_empty r = (case json r of None \<Rightarrow> Obj [] | Some v \<Rightarrow> v)"

section \<open>The API client\<close>

text \<open>
  The class \<^verbatim>\<open>NeutronClient\<close> (\<^verbatim>\<open>neutron-client.ts\<close>, compiled to
  \<^verbatim>\<open>dist/neutron-client.js\<close>): its configuration and the four private fields of the
  session. A method is a function from the client's fields and the world to a result
  (\<open>Inl\<close>: the error thrown) and the fields and the world after the call.
\<close>

record NeutronConfig =
  apiUrl :: string
  apiKey :: string
  apiSecret :: string

record NeutronClient =
  config :: NeutronConfig
  accountId :: jsval
  accessToken :: jsval
  tokenExpiry :: jsnum
  cachedAuthResponse :: jsval

definition new_NeutronClient :: "NeutronConfig \<Rightarrow> NeutronClient" where
  "new_NeutronClient cfg =
    \<lparr>config = cfg, accountId = Null, accessToken = Null, tokenExpiry = Finite 0,
     cachedAuthResponse = Null\<rparr>"

type_synonym 'a io = "NeutronClient \<times> world \<Rightarrow> (js_error + 'a) \<times> NeutronClient \<times> world"

definition ret :: "'a \<Rightarrow> 'a io" where
  "ret x = (\<lambda>s. (Inr x, s))"

definition throw :: "js_error \<Rightarrow> 'a io" where
  "throw e = (\<lambda>s. (Inl e, s))"

definition lift :: "js_error + 'a \<Rightarrow> 'a io" where
  "lift r = (\<lambda>s. (r, s))"

definition bindE :: "'a io \<Rightarrow> ('a \<Rightarrow> 'b io) \<Rightarrow> 'b io" where
  "bindE m f = (\<lambda>s. case m s of (Inl e, s') \<Rightarrow> (Inl e, s') | (Inr x, s') \<Rightarrow> f x s')"

definition this :: "NeutronClient io" where
  "this = (\<lambda>(c, w). (Inr c, c, w))"

definition assign :: "(NeutronClient \<Rightarrow> NeutronClient) \<Rightarrow> unit io" where
  "assign f = (\<lambda>(c, w). (Inr (), f c, w))"

definition Date_now :: "int io" where
  "Date_now = (\<lambda>(c, w). (Inr (now w), c, w))"

definition await_fetch :: "http_request \<Rightarrow> http_response io" where
  "await_fetch req = (\<lambda>(c, w). let (outcome, w') = fetch req w in (outcome, c, w'))"

text \<open>\<^verbatim>\<open>a || b\<close> where evaluating \<open>a\<close> or \<open>b\<close> may throw; \<open>b\<close> is only used when \<open>a\<close> is falsy.\<close>

definition or_else :: "js_error + jsval \<Rightarrow> js_error + jsval \<Rightarrow> js_error + jsval" where
  "or_else a b = (case a of Inl e \<Rightarrow> Inl e | Inr v \<Rightarrow> if truthy v then Inr v else b)"

definition generateSignature :: "runtime \<Rightarrow> NeutronClient \<Rightarrow> string \<Rightarrow> string" where
  "generateSignature rt c payload =
    hmac_sha256_hex rt (apiSecret (config c)) (apiKey (config c) @ ''&payload='' @ payload)"

text \<open>The condition under which \<^verbatim>\<open>ensureAuthenticated\<close> returns the cached response.\<close>

definition authenticated :: "NeutronClient \<Rightarrow> world \<Rightarrow> bool" where
  "authenticated c w \<longleftrightarrow>
     truthy (cachedAuthResponse c) \<and> truthy (accessToken c) \<and> truthy (accountId c)
     \<and> num_less (Finite (of_int (now w))) (tokenExpiry c)"

definition auth_request :: "runtime \<Rightarrow> NeutronClient \<Rightarrow> http_request" where
  "auth_request rt c =
    (let payload = ''{\"test\":\"auth\"}'';
         signature = generateSignature rt c payload
     in \<lparr>url = apiUrl (config c) @ ''/api/v2/authentication/token-signature'',
         http_method = ''POST'',
         headers = [(''Content-Type'', ''application/json''),
                    (''X-Api-Key'', apiKey (config c)),
                    (''X-Api-Signature'', signature)],
         body = Some (Obj [(''test'', Str ''auth'')])\<rparr>)"

text \<open>The error thrown on a response of the token endpoint that is not \<^verbatim>\<open>ok\<close>.\<close>

definition authentication_failed :: "runtime \<Rightarrow> http_response \<Rightarrow> js_error" where
  "authentication_failed rt response =
    (let error = response_json_or_empty response
     in case or_else (member error ''message'')
               (or_else (member error ''error'') (Inr (Str (statusText response)))) of
          Inl e \<Rightarrow> e
        | Inr detail \<Rightarrow>
            (case to_string rt detail of
               Inl e \<Rightarrow> e
             | Inr d \<Rightarrow> Error (''Authentication failed: ''
                               @ number_to_string rt (Finite (of_nat (status response)))
                               @ '' - '' @ d)))"

definition ensureAuthenticated :: "runtime \<Rightarrow> jsval io" where
  "ensureAuthenticated rt = (\<lambda>(c, w).
     if authenticated c w then (Inr (cachedAuthResponse c), c, w)
     else
       bindE (await_fetch (auth_request rt c)) (\<lambda>response.
         if \<not> ok response then throw (authentication_failed rt response)
         else
           bindE (lift (response_json response)) (\<lambda>authResult.
           bindE (lift (member authResult ''accountId'')) (\<lambda>v1.
           bindE (assign (\<lambda>c. c\<lparr>accountId := v1\<rparr>)) (\<lambda>_.
           bindE (lift (member authResult ''accessToken'')) (\<lambda>v2.
           bindE (assign (\<lambda>c. c\<lparr>accessToken := v2\<rparr>)) (\<lambda>_.
           bindE (assign (\<lambda>c. c\<lparr>cachedAuthResponse := authResult\<rparr>)) (\<lambda>_.
           bindE (lift (member authResult ''expiredAt'')) (\<lambda>expiredAt.
           bindE (if truthy expiredAt then lift (date_get_time rt expiredAt)
                  else bindE Date_now (\<lambda>t. ret (Finite (of_int (t + 3600000))))) (\<lambda>expiry.
           bindE (assign (\<lambda>c. c\<lparr>tokenExpiry := expiry\<rparr>)) (\<lambda>_.
           ret authResult)))))))))) (c, w))"

definition authenticate :: "runtime \<Rightarrow> jsval io" where
  "authenticate rt =
     bindE (assign (\<lambda>c. c\<lparr>accessToken := Null\<rparr>)) (\<lambda>_.
     bindE (assign (\<lambda>c. c\<lparr>accountId := Null\<rparr>)) (\<lambda>_.
     bindE (assign (\<lambda>c. c\<lparr>tokenExpiry := Finite 0\<rparr>)) (\<lambda>_.
     bindE (assign (\<lambda>c. c\<lparr>cachedAuthResponse := Null\<rparr>)) (\<lambda>_.
     ensureAuthenticated rt))))"

text \<open>The error thrown by \<^verbatim>\<open>request\<close> on a response that is not \<^verbatim>\<open>ok\<close>.\<close>

definition api_error :: "runtime \<Rightarrow> http_response \<Rightarrow> js_error" where
  "api_error rt response =
    (let error = response_json_or_empty response
     in case or_else (member error ''error'')
               (or_else (member error ''message'') (Inr (Str (statusText response)))) of
          Inl e \<Rightarrow> e
        | Inr detail \<Rightarrow>
            (case to_string rt detail of
               Inl e \<Rightarrow> e
             | Inr d \<Rightarrow> Error (''API Error ''
                               @ number_to_string rt (Finite (of_nat (status response)))
                               @ '': '' @ d)))"

definition request :: "runtime \<Rightarrow> string \<Rightarrow> string \<Rightarrow> jsval \<Rightarrow> jsval io" where
  "request rt meth path payload =
     bindE (ensureAuthenticated rt) (\<lambda>_.
     bindE this (\<lambda>c.
     bindE (lift (to_string rt (accessToken c))) (\<lambda>token.
     bindE (await_fetch
              \<lparr>url = apiUrl (config c) @ path,
               http_method = meth,
               headers = [(''Authorization'', ''Bearer '' @ token)]
                         @ (if truthy payload then [(''Content-Type'', ''application/json'')]
                            else []),
               body = (if truthy payload then Some (to_json payload) else None)\<rparr>) (\<lambda>response.
     if \<not> ok response then throw (api_error rt response)
     else lift (response_json response)))))"

text \<open>
  The request that \<^verbatim>\<open>request\<close> passes to \<^verbatim>\<open>fetch\<close>, for the client as it is after
  \<^verbatim>\<open>ensureAuthenticated\<close> and the text \<open>token\<close> of its access token.
\<close>

definition api_request :: "NeutronClient \<Rightarrow> string \<Rightarrow> string \<Rightarrow> string \<Rightarrow> jsval \<Rightarrow> http_request" where
  "api_request c token meth path payload =
    \<lparr>url = apiUrl (config c) @ path,
     http_method = meth,
     headers = [(''Authorization'', ''Bearer '' @ token)]
               @ (if truthy payload then [(''Content-Type'', ''application/json'')] else []),
     body = (if truthy payload then Some (to_json payload) else None)\<rparr>"

subsection \<open>The methods of the API\<close>

text \<open>
  A call \<^verbatim>\<open>this.request(method, path)\<close> without a body passes \<^verbatim>\<open>undefined\<close>. A template
  literal converts each interpolated value to a string, in order, before the call. The
  three Lightning methods are those of \<^verbatim>\<open>dist/neutron-client.js\<close>, which the handler
  calls.
\<close>

definition getAccount :: "runtime \<Rightarrow> jsval io" where
  "getAccount rt =
     bindE (ensureAuthenticated rt) (\<lambda>_.
     bindE this (\<lambda>c.
     bindE (lift (to_string rt (accountId c))) (\<lambda>aid.
     request rt ''GET'' (''/api/v2/account/'' @ aid) Undefined)))"

definition getWallets :: "runtime \<Rightarrow> jsval io" where
  "getWallets rt =
     bindE (ensureAuthenticated rt) (\<lambda>_.
     bindE this (\<lambda>c.
     bindE (lift (to_string rt (accountId c))) (\<lambda>aid.
     request rt ''GET'' (''/api/v2/account/'' @ aid @ ''/wallet/'') Undefined)))"

definition getWallet :: "runtime \<Rightarrow> jsval \<Rightarrow> jsval io" where
  "getWallet rt walletId =
     bindE (ensureAuthenticated rt) (\<lambda>_.
     bindE this (\<lambda>c.
     bindE (lift (to_string rt (accountId c))) (\<lambda>aid.
     bindE (lift (to_string rt walletId)) (\<lambda>wid.
     request rt ''GET'' (''/api/v2/account/'' @ aid @ ''/wallet/'' @ wid) Undefined))))"

definition createTransaction :: "runtime \<Rightarrow> jsval \<Rightarrow> jsval io" where
  "createTransaction rt payload = request rt ''POST'' ''/api/v2/transaction'' payload"

definition confirmTransaction :: "runtime \<Rightarrow> jsval \<Rightarrow> jsval io" where
  "confirmTransaction rt transactionId =
     bindE (lift (to_string rt transactionId)) (\<lambda>tid.
     request rt ''PUT'' (''/api/v2/transaction/'' @ tid @ ''/confirm'') Undefined)"

definition getTransaction :: "runtime \<Rightarrow> jsval \<Rightarrow> jsval io" where
  "getTransaction rt transactionId =
     bindE (lift (to_string rt transactionId)) (\<lambda>tid.
     request rt ''GET'' (''/api/v2/transaction/'' @ tid) Undefined)"

text \<open>
  \<^verbatim>\<open>listTransactions\<close>: the entries of \<^verbatim>\<open>params\<close> that are neither \<^verbatim>\<open>undefined\<close> nor
  \<^verbatim>\<open>null\<close> are appended to a \<^verbatim>\<open>URLSearchParams\<close>, whose text is \<open>name=value\<close> pairs
  joined by \<^verbatim>\<open>&\<close>.
\<close>

fun search_params :: "runtime \<Rightarrow> (string \<times> jsval) list \<Rightarrow> js_error + (string \<times> string) list" where
  "search_params rt [] = Inr []"
| "search_params rt ((k, v) # ps) =
     (if v \<noteq> Undefined \<and> v \<noteq> Null
      then (case to_string rt v of
              Inl e \<Rightarrow> Inl e
            | Inr s \<Rightarrow> (case search_params rt ps of
                          Inl e \<Rightarrow> Inl e
                        | Inr qs \<Rightarrow> Inr ((k, s) # qs)))
      else search_params rt ps)"

fun search_params_text :: "runtime \<Rightarrow> (string \<times> string) list \<Rightarrow> string" where
  "search_params_text rt [] = []"
| "search_params_text rt [(k, v)] = form_urlencode rt k @ ''='' @ form_urlencode rt v"
| "search_params_text rt ((k, v) # qs) =
     form_urlencode rt k @ ''='' @ form_urlencode rt v @ ''&'' @ search_params_text rt qs"

definition listTransactions :: "runtime \<Rightarrow> (string \<times> jsval) list \<Rightarrow> jsval io" where
  "listTransactions rt params =
     bindE (lift (search_params rt params)) (\<lambda>qs.
     let query = search_params_text rt qs
     in request rt ''GET''
          (''/api/v2/transaction'' @ (if query \<noteq> [] then ''?'' @ query else [])) Undefined)"

definition decodeInvoice :: "runtime \<Rightarrow> jsval \<Rightarrow> jsval io" where
  "decodeInvoice rt invoice =
     bindE (lift (to_string rt invoice)) (\<lambda>s.
     request rt ''GET'' (''/api/v2/lightning/invoice?invoice='' @ encodeURIComponent rt s)
       Undefined)"

definition resolveLightningAddress :: "runtime \<Rightarrow> jsval \<Rightarrow> jsval \<Rightarrow> jsval io" where
  "resolveLightningAddress rt address amountMsat =
     bindE (lift (to_string rt address)) (\<lambda>s.
     let path = ''/api/v2/lightning/resolve-ln-address?lnAddress='' @ encodeURIComponent rt s
     in bindE (if amountMsat \<noteq> Undefined
               then bindE (lift (to_string rt amountMsat)) (\<lambda>a. ret (path @ ''&amount='' @ a))
               else ret path) (\<lambda>path.
        request rt ''GET'' path Undefined))"

definition resolveLnurl :: "runtime \<Rightarrow> jsval \<Rightarrow> jsval io" where
  "resolveLnurl rt lnurl =
     bindE (lift (to_string rt lnurl)) (\<lambda>s.
     request rt ''GET'' (''/api/v2/lightning/resolve-lnurl?lnurl='' @ encodeURIComponent rt s)
       Undefined)"

definition getBtcReceiveAddress :: "runtime \<Rightarrow> jsval io" where
  "getBtcReceiveAddress rt = request rt ''GET'' ''/api/v2/account/onchain-address'' Undefined"

definition getUsdtReceiveAddress :: "runtime \<Rightarrow> jsval \<Rightarrow> jsval io" where
  "getUsdtReceiveAddress rt chainId =
     bindE (lift (to_string rt (if chainId = Undefined then Str ''TRON'' else chainId))) (\<lambda>s.
     request rt ''GET''
       (''/api/v2/account/stablecoin-onchain-address?walletCcy=USDT&chainId='' @ s) Undefined)"

definition createWebhook :: "runtime \<Rightarrow> jsval \<Rightarrow> jsval io" where
  "createWebhook rt payload = request rt ''POST'' ''/api/v2/webhook'' payload"

definition listWebhooks :: "runtime \<Rightarrow> jsval io" where
  "listWebhooks rt = request rt ''GET'' ''/api/v2/webhook'' Undefined"

definition updateWebhook :: "runtime \<Rightarrow> jsval \<Rightarrow> jsval \<Rightarrow> jsval io" where
  "updateWebhook rt webhookId payload =
     bindE (lift (to_string rt webhookId)) (\<lambda>s.
     request rt ''PUT'' (''/api/v2/webhook/'' @ s) payload)"

definition deleteWebhook :: "runtime \<Rightarrow> jsval \<Rightarrow> jsval io" where
  "deleteWebhook rt webhookId =
     bindE (lift (to_string rt webhookId)) (\<lambda>s.
     bindE (request rt ''DELETE'' (''/api/v2/webhook/'' @ s) Undefined) (\<lambda>_.
     ret Undefined))"

definition getRate :: "runtime \<Rightarrow> jsval io" where
  "getRate rt = request rt ''GET'' ''/api/v2/rate'' Undefined"

definition getFiatInstitutions :: "runtime \<Rightarrow> jsval \<Rightarrow> jsval io" where
  "getFiatInstitutions rt countryCode =
     bindE (lift (to_string rt countryCode)) (\<lambda>s.
     request rt ''GET'' (''/api/v2/reference/fiat-institution/by-country/'' @ s) Undefined)"

section \<open>The tool-call handler\<close>

subsection \<open>Create Lightning invoice\<close>

text \<open>
  The amount of the \<^verbatim>\<open>neutron_create_lightning_invoice\<close> case: \<^verbatim>\<open>btcAmount\<close> as the
  \<^verbatim>\<open>if\<close> chain sets it, and the \<^verbatim>\<open>amountSats\<close> the result reports,
  \<^verbatim>\<open>Math.round(btcAmount * 100_000_000)\<close>.
\<close>

definition btcAmount :: "runtime \<Rightarrow> jsval \<Rightarrow> jsval \<Rightarrow> js_error + jsval" where
  "btcAmount rt amountSats amountBtc =
    (if amountSats \<noteq> Undefined
     then (case to_number rt amountSats of
             Inl e \<Rightarrow> Inl e
           | Inr n \<Rightarrow> Inr (Num (num_div n 100000000)))
     else if amountBtc \<noteq> Undefined then Inr amountBtc
     else Inl (Error ''Provide either amountSats or amountBtc''))"

definition reported_amountSats :: "runtime \<Rightarrow> jsval \<Rightarrow> js_error + jsval" where
  "reported_amountSats rt btc =
    (case to_number rt btc of
       Inl e \<Rightarrow> Inl e
     | Inr n \<Rightarrow> Inr (Num (math_round (num_mul n 100000000))))"

definition lightning_invoice_request :: "jsval \<Rightarrow> jsval \<Rightarrow> jsval" where
  "lightning_invoice_request extRefId btc =
    Obj [(''extRefId'', extRefId),
         (''sourceReq'', Obj [(''ccy'', Str ''BTC''), (''method'', Str ''lightning''),
                              (''reqDetails'', Obj [])]),
         (''destReq'', Obj [(''ccy'', Str ''BTC''), (''method'', Str ''neutronpay''),
                            (''amtRequested'', btc), (''reqDetails'', Obj [])])]"

definition create_lightning_invoice :: "runtime \<Rightarrow> (string \<times> jsval) list \<Rightarrow> jsval io" where
  "create_lightning_invoice rt args =
    (let amountSats = get_prop args ''amountSats'';
         amountBtc = get_prop args ''amountBtc'';
         memo = get_prop args ''memo'';
         extRefId = get_prop args ''extRefId''
     in bindE (lift (btcAmount rt amountSats amountBtc)) (\<lambda>btc.
        bindE (createTransaction rt (lightning_invoice_request extRefId btc)) (\<lambda>txn.
        bindE (lift (member txn ''txnId'')) (\<lambda>txnId.
        bindE (confirmTransaction rt txnId) (\<lambda>confirmed.
        bindE (lift (member confirmed ''sourceReq'')) (\<lambda>sourceReq.
        let payReq = member_opt (member_opt sourceReq ''reqDetails'') ''paymentRequest'';
            qrPage = member_opt (member_opt sourceReq ''reqDetails'') ''invoicePageUrl''
        in bindE (lift (member confirmed ''txnId'')) (\<lambda>confirmedId.
           bindE (lift (reported_amountSats rt btc)) (\<lambda>sats.
           bindE (lift (member confirmed ''txnState'')) (\<lambda>txnState.
           ret (Obj [(''success'', Bool True),
                     (''txnId'', confirmedId),
                     (''invoice'', payReq),
                     (''qrPageUrl'', qrPage),
                     (''amountBtc'', btc),
                     (''amountSats'', sats),
                     (''memo'', js_or memo Null),
                     (''status'', txnState),
                     (''message'', Str ''Lightning invoice created and confirmed. Share the invoice string or QR page URL to receive payment.'')]))))))))))"

subsection \<open>The dispatch on the tool name\<close>

text \<open>The names of the tool definitions in \<^verbatim>\<open>tools\<close>.\<close>

definition tools :: "string list" where
  "tools =
    [''neutron_authenticate'', ''neutron_get_account'', ''neutron_get_wallets'',
     ''neutron_get_wallet'', ''neutron_create_lightning_invoice'', ''neutron_create_transaction'',
     ''neutron_confirm_transaction'', ''neutron_get_transaction'', ''neutron_list_transactions'',
     ''neutron_decode_invoice'', ''neutron_resolve_lightning_address'', ''neutron_resolve_lnurl'',
     ''neutron_get_btc_address'', ''neutron_get_usdt_address'', ''neutron_create_webhook'',
     ''neutron_list_webhooks'', ''neutron_update_webhook'', ''neutron_delete_webhook'',
     ''neutron_get_rate'', ''neutron_get_fiat_institutions'']"

definition tool_switch :: "runtime \<Rightarrow> string \<Rightarrow> (string \<times> jsval) list \<Rightarrow> jsval io" where
  "tool_switch rt name args =
    (if name = ''neutron_authenticate'' then
       bindE (authenticate rt) (\<lambda>auth.
       bindE (lift (member auth ''accountId'')) (\<lambda>aid.
       bindE (lift (member auth ''expiredAt'')) (\<lambda>expiredAt.
       ret (Obj [(''success'', Bool True),
                 (''accountId'', aid),
                 (''tokenExpiry'', expiredAt),
                 (''message'', Str ''Authentication successful. Your API credentials are valid.'')]))))
     else if name = ''neutron_get_account'' then getAccount rt
     else if name = ''neutron_get_wallets'' then getWallets rt
     else if name = ''neutron_get_wallet'' then getWallet rt (get_prop args ''walletId'')
     else if name = ''neutron_create_lightning_invoice'' then create_lightning_invoice rt args
     else if name = ''neutron_create_transaction'' then
       createTransaction rt (create_transaction_body args)
     else if name = ''neutron_confirm_transaction'' then
       confirmTransaction rt (get_prop args ''transactionId'')
     else if name = ''neutron_get_transaction'' then
       getTransaction rt (get_prop args ''transactionId'')
     else if name = ''neutron_list_transactions'' then
       listTransactions rt
         [(''status'', get_prop args ''status''), (''method'', get_prop args ''method''),
          (''currency'', get_prop args ''currency''), (''fromDate'', get_prop args ''fromDate''),
          (''toDate'', get_prop args ''toDate''), (''limit'', get_prop args ''limit''),
          (''offset'', get_prop args ''offset'')]
     else if name = ''neutron_decode_invoice'' then decodeInvoice rt (get_prop args ''invoice'')
     else if name = ''neutron_resolve_lightning_address'' then
       resolveLightningAddress rt (get_prop args ''address'') (get_prop args ''amountMsat'')
     else if name = ''neutron_resolve_lnurl'' then resolveLnurl rt (get_prop args ''lnurl'')
     else if name = ''neutron_get_btc_address'' then getBtcReceiveAddress rt
     else if name = ''neutron_get_usdt_address'' then
       getUsdtReceiveAddress rt (js_or (get_prop args ''chain'') (Str ''TRON''))
     else if name = ''neutron_create_webhook'' then
       createWebhook rt (Obj [(''callback'', get_prop args ''callback''),
                              (''secret'', get_prop args ''secret'')])
     else if name = ''neutron_list_webhooks'' then listWebhooks rt
     else if name = ''neutron_update_webhook'' then
       updateWebhook rt (get_prop args ''webhookId'')
         (Obj (filter (\<lambda>(k, v). k \<noteq> ''webhookId'') args))
     else if name = ''neutron_delete_webhook'' then
       bindE (deleteWebhook rt (get_prop args ''webhookId'')) (\<lambda>_.
       bindE (lift (to_string rt (get_prop args ''webhookId''))) (\<lambda>s.
       ret (Obj [(''success'', Bool True), (''message'', Str (''Webhook '' @ s @ '' deleted.''))])))
     else if name = ''neutron_get_rate'' then getRate rt
     else if name = ''neutron_get_fiat_institutions'' then
       getFiatInstitutions rt (get_prop args ''countryCode'')
     else throw (Error (''Unknown tool: '' @ name)))"

subsection \<open>The handler\<close>

text \<open>
  \<^verbatim>\<open>getClient\<close>: the singleton \<^verbatim>\<open>_client\<close>, made on first use from the environment of the
  process; an unset and an empty variable are both falsy.
\<close>

definition getClient :: "(string \<rightharpoonup> string) \<Rightarrow> NeutronClient option \<Rightarrow> js_error + NeutronClient" where
  "getClient env client_slot =
    (case client_slot of
       Some c \<Rightarrow> Inr c
     | None \<Rightarrow>
        (let url = (case env ''NEUTRON_API_URL'' of
                      None \<Rightarrow> ''https://api.neutron.me''
                    | Some u \<Rightarrow> if u = [] then ''https://api.neutron.me'' else u);
             key = (case env ''NEUTRON_API_KEY'' of None \<Rightarrow> [] | Some k \<Rightarrow> k);
             secret = (case env ''NEUTRON_API_SECRET'' of None \<Rightarrow> [] | Some k \<Rightarrow> k)
         in if key = [] \<or> secret = []
            then Inl (Error (''NEUTRON_API_KEY and NEUTRON_API_SECRET environment variables are required. ''
                             @ ''Get your credentials at https://neutron.me''))
            else Inr (new_NeutronClient \<lparr>apiUrl = url, apiKey = key, apiSecret = secret\<rparr>)))"

text \<open>
  What the handler returns: one text item, and \<^verbatim>\<open>isError\<close> (\<open>False\<close>: the key is not
  set). The text of a success is \<^verbatim>\<open>JSON.stringify(result, null, 2)\<close>, kept as the JSON
  tree it prints; the text of a failure is a plain string.
\<close>

datatype tool_text = Json_text jsval | Plain_text string

record tool_result =
  content_text :: tool_text
  isError :: bool

text \<open>
  The handler of a tool call, on the state of the process: the singleton client and
  the world. \<open>Inl\<close> is an error that leaves the handler. \<^verbatim>\<open>getClient()\<close> is called
  before the \<^verbatim>\<open>try\<close> block; the \<^verbatim>\<open>switch\<close> runs inside it.
\<close>

definition call_tool ::
  "runtime \<Rightarrow> (string \<rightharpoonup> string) \<Rightarrow> string \<Rightarrow> (string \<times> jsval) list option
   \<Rightarrow> NeutronClient option \<times> world \<Rightarrow> (js_error + tool_result) \<times> NeutronClient option \<times> world" where
  "call_tool rt env name arguments = (\<lambda>(client_slot, w).
     let args = (case arguments of None \<Rightarrow> [] | Some a \<Rightarrow> a)
     in case getClient env client_slot of
          Inl e \<Rightarrow> (Inl e, client_slot, w)
        | Inr client \<Rightarrow>
            (case tool_switch rt name args (client, w) of
               (Inr result, client', w') \<Rightarrow>
                 (Inr \<lparr>content_text = Json_text (to_json result), isError = False\<rparr>, Some client', w')
             | (Inl error, client', w') \<Rightarrow>
                 (Inr \<lparr>content_text = Plain_text (''Error: '' @ message error), isError = True\<rparr>,
                  Some client', w')))"

section \<open>Scenarios and example inputs\<close>

text \<open>
  \<open>ensure_at_times\<close> calls \<^verbatim>\<open>ensureAuthenticated\<close> once at each of the given clock
  readings, one call after the other on the same client.
\<close>

fun ensure_at_times :: "runtime \<Rightarrow> int list \<Rightarrow> NeutronClient \<times> world \<Rightarrow> NeutronClient \<times> world" where
  "ensure_at_times rt [] s = s"
| "ensure_at_times rt (t # ts) (c, w) =
     (case ensureAuthenticated rt (c, w\<lparr>now := t\<rparr>) of (r, c', w') \<Rightarrow> ensure_at_times rt ts (c', w'))"

text \<open>
  An example runtime for concrete runs: a status code prints in decimal; the other
  library functions are stand-ins, which no property below depends on.
\<close>

fun decimal :: "nat \<Rightarrow> string" where
  "decimal n =
     (if n < 10 then [''0123456789'' ! n] else decimal (n div 10) @ [''0123456789'' ! (n mod 10)])"

declare decimal.simps [simp del]

definition example_runtime :: runtime where
  "example_runtime =
    \<lparr>number_to_string = (\<lambda>n. case n of Finite x \<Rightarrow> decimal (nat \<lfloor>x\<rfloor>) | _ \<Rightarrow> ''NaN''),
     string_to_number = (\<lambda>s. NaN),
     date_parse = (\<lambda>s. NaN),
     hmac_sha256_hex = (\<lambda>k m. ''00''),
     encodeURIComponent = (\<lambda>s. s),
     form_urlencode = (\<lambda>s. s)\<rparr>"

text \<open>A client holding a session that expires at clock reading 2000.\<close>

definition example_client :: NeutronClient where
  "example_client =
    \<lparr>config = \<lparr>apiUrl = ''https://api.neutron.me'', apiKey = ''key'', apiSecret = ''secret''\<rparr>,
     accountId = Str ''acc-1'',
     accessToken = Str ''tok-1'',
     tokenExpiry = Finite 2000,
     cachedAuthResponse = Obj [(''accountId'', Str ''acc-1''), (''accessToken'', Str ''tok-1'')]\<rparr>"

text \<open>
  A remote side that quotes every created transaction as \<^verbatim>\<open>txn-1\<close>, confirms it with
  an invoice, and refuses everything else with status 400 and the body
  \<^verbatim>\<open>{error: "X", message: "Y"}\<close>; each answer takes 5 ms.
\<close>

definition example_confirmed :: jsval where
  "example_confirmed =
    Obj [(''txnId'', Str ''txn-1''), (''txnState'', Str ''pending''),
         (''sourceReq'', Obj [(''ccy'', Str ''BTC''), (''method'', Str ''lightning''),
            (''reqDetails'', Obj [(''paymentRequest'', Str ''lnbc50u1p''),
                                  (''invoicePageUrl'', Str ''https://pay.example/txn-1'')])])]"

definition example_remote :: "http_request list \<Rightarrow> http_request \<Rightarrow> (js_error + http_response) \<times> nat" where
  "example_remote earlier req =
    (if http_method req = ''POST'' \<and> url req = ''https://api.neutron.me/api/v2/transaction''
     then (Inr \<lparr>status = 200, statusText = ''OK'',
                json = Some (Obj [(''txnId'', Str ''txn-1''), (''txnState'', Str ''quoted'')])\<rparr>, 5)
     else if http_method req = ''PUT''
             \<and> url req = ''https://api.neutron.me/api/v2/transaction/txn-1/confirm''
     then (Inr \<lparr>status = 200, statusText = ''OK'', json = Some example_confirmed\<rparr>, 5)
     else (Inr \<lparr>status = 400, statusText = ''Bad Request'',
                json = Some (Obj [(''error'', Str ''X''), (''message'', Str ''Y'')])\<rparr>, 5))"

definition example_world :: world where
  "example_world = \<lparr>now = 1000, sent = [], remote = example_remote\<rparr>"

text \<open>
  The run of the create-receive-invoice tool for 5000 satoshis against that remote
  side: the two requests it sends and the result it returns. The BTC amount is the
  binary64 number nearest to 0.00005.
\<close>

definition example_btc :: jsval where
  "example_btc = Num (Finite (7378697629483821 / 147573952589676412928))"

definition example_post_request :: http_request where
  "example_post_request =
    \<lparr>url = ''https://api.neutron.me/api/v2/transaction'', http_method = ''POST'',
     headers = [(''Authorization'', ''Bearer tok-1''), (''Content-Type'', ''application/json'')],
     body = Some (Obj [(''sourceReq'', Obj [(''ccy'', Str ''BTC''), (''method'', Str ''lightning''),
                                            (''reqDetails'', Obj [])]),
                       (''destReq'', Obj [(''ccy'', Str ''BTC''), (''method'', Str ''neutronpay''),
                                          (''amtRequested'', example_btc),
                                          (''reqDetails'', Obj [])])])\<rparr>"

definition example_put_request :: http_request where
  "example_put_request =
    \<lparr>url = ''https://api.neutron.me/api/v2/transaction/txn-1/confirm'', http_method = ''PUT'',
     headers = [(''Authorization'', ''Bearer tok-1'')], body = None\<rparr>"

definition example_invoice_result :: jsval where
  "example_invoice_result =
    Obj [(''success'', Bool True),
         (''txnId'', Str ''txn-1''),
         (''invoice'', Str ''lnbc50u1p''),
         (''qrPageUrl'', Str ''https://pay.example/txn-1''),
         (''amountBtc'', example_btc),
         (''amountSats'', Num (Finite 5000)),
         (''memo'', Null),
         (''status'', Str ''pending''),
         (''message'', Str ''Lightning invoice created and confirmed. Share the invoice string or QR page URL to receive payment.'')]"

text \<open>An environment with both credentials set, and the client \<^verbatim>\<open>getClient\<close> makes from it.\<close>

definition example_env :: "string \<rightharpoonup> string" where
  "example_env = [''NEUTRON_API_KEY'' \<mapsto> ''key'', ''NEUTRON_API_SECRET'' \<mapsto> ''secret'']"

definition example_new_client :: NeutronClient where
  "example_new_client =
    new_NeutronClient \<lparr>apiUrl = ''https://api.neutron.me'', apiKey = ''key'', apiSecret = ''secret''\<rparr>"



definition empty_token_client :: NeutronClient where
  "empty_token_client = example_client\<lparr>accessToken := Str []\<rparr>"

section \<open>Properties of the transaction normalizer\<close>

lemma truthy_kyc:
  "truthy (kyc a) \<longleftrightarrow> truthy (get_prop a ''recipientName'') \<or> truthy (get_prop a ''countryCode'')"
  by (simp add: kyc_def js_or_def)

lemma kyc_Undefined:
  "kyc a = Undefined \<longleftrightarrow> \<not> (truthy (get_prop a ''recipientName'') \<or> truthy (get_prop a ''countryCode''))"
  by (simp add: kyc_def js_or_def)

lemma kyc_value:
  "truthy (get_prop a ''recipientName'') \<or> truthy (get_prop a ''countryCode'') \<Longrightarrow>
   kyc a = Obj [(''type'', if truthy (get_prop a ''kycType'') then get_prop a ''kycType''
                           else Str ''individual''),
                (''details'', Obj [(''legalFullName'', get_prop a ''recipientName''),
                                   (''countryCode'', get_prop a ''countryCode'')])]"
  by (auto simp add: kyc_def js_or_def)

lemma body_sourceReq:
  "get_field (create_transaction_body a) ''sourceReq'' =
     Obj ([(''ccy'', get_prop a ''sourceCcy''), (''method'', get_prop a ''sourceMethod'')]
          @ (if get_prop a ''sourceAmount'' \<noteq> Undefined
             then [(''amtRequested'', get_prop a ''sourceAmount'')] else [])
          @ [(''reqDetails'', Obj [])])"
  by (simp add: create_transaction_body_def get_prop_def)

lemma wire_sourceReq:
  "get_field (to_json (create_transaction_body a)) ''sourceReq'' =
     to_json (get_field (create_transaction_body a) ''sourceReq'')"
  by (simp add: create_transaction_body_def get_prop_def)

lemma body_destReq:
  "get_field (create_transaction_body a) ''destReq'' =
     Obj ([(''ccy'', get_prop a ''destCcy''), (''method'', get_prop a ''destMethod'')]
          @ (if get_prop a ''destAmount'' \<noteq> Undefined
             then [(''amtRequested'', get_prop a ''destAmount'')] else [])
          @ [(''reqDetails'', Obj (destReqDetails a))]
          @ (if truthy (kyc a) then [(''kyc'', kyc a)] else []))"
  by (simp add: create_transaction_body_def get_prop_def)

lemma wire_destReq:
  "get_field (to_json (create_transaction_body a)) ''destReq'' =
     to_json (get_field (create_transaction_body a) ''destReq'')"
  by (simp add: create_transaction_body_def get_prop_def)


text \<open>
  Claim C2 (amount-exclusivity pass-through). For every intent in which only
  \<open>sourceAmount\<close> is defined (not \<^verbatim>\<open>undefined\<close>), the request body has
  \<open>sourceReq.amtRequested\<close> as a key, equal to \<open>sourceAmount\<close>, and \<open>destReq\<close> has no
  key \<open>amtRequested\<close> at all (so it is omitted, not null); symmetrically when only
  \<open>destAmount\<close> is defined. Both hold of the object the handler builds and of the JSON
  that is sent for it.
\<close>

theorem amount_exclusivity_pass_through:
  fixes a :: "(string \<times> jsval) list"
  defines "req \<equiv> create_transaction_body a"
  defines "wire \<equiv> to_json (create_transaction_body a)"
  shows
  "(get_prop a ''sourceAmount'' \<noteq> Undefined \<and> get_prop a ''destAmount'' = Undefined \<longrightarrow>
      has_key (get_field req ''sourceReq'') ''amtRequested''
    \<and> get_field (get_field req ''sourceReq'') ''amtRequested'' = get_prop a ''sourceAmount''
    \<and> \<not> has_key (get_field req ''destReq'') ''amtRequested''
    \<and> has_key (get_field wire ''sourceReq'') ''amtRequested''
    \<and> get_field (get_field wire ''sourceReq'') ''amtRequested'' = to_json (get_prop a ''sourceAmount'')
    \<and> \<not> has_key (get_field wire ''destReq'') ''amtRequested'')
 \<and> (get_prop a ''destAmount'' \<noteq> Undefined \<and> get_prop a ''sourceAmount'' = Undefined \<longrightarrow>
      has_key (get_field req ''destReq'') ''amtRequested''
    \<and> get_field (get_field req ''destReq'') ''amtRequested'' = get_prop a ''destAmount''
    \<and> \<not> has_key (get_field req ''sourceReq'') ''amtRequested''
    \<and> has_key (get_field wire ''destReq'') ''amtRequested''
    \<and> get_field (get_field wire ''destReq'') ''amtRequested'' = to_json (get_prop a ''destAmount'')
    \<and> \<not> has_key (get_field wire ''sourceReq'') ''amtRequested'')"
proof -
  have src: "has_key (get_field req ''sourceReq'') ''amtRequested''
      \<and> get_field (get_field req ''sourceReq'') ''amtRequested'' = get_prop a ''sourceAmount''
      \<and> has_key (get_field wire ''sourceReq'') ''amtRequested''
      \<and> get_field (get_field wire ''sourceReq'') ''amtRequested'' = to_json (get_prop a ''sourceAmount'')"
    if "get_prop a ''sourceAmount'' \<noteq> Undefined"
    using that unfolding req_def wire_def
    by (simp add: wire_sourceReq body_sourceReq has_key_def get_prop_def)
  have no_src: "\<not> has_key (get_field req ''sourceReq'') ''amtRequested''
      \<and> \<not> has_key (get_field wire ''sourceReq'') ''amtRequested''"
    if "get_prop a ''sourceAmount'' = Undefined"
    using that unfolding req_def wire_def
    by (simp add: wire_sourceReq body_sourceReq has_key_def)
  have dst: "has_key (get_field req ''destReq'') ''amtRequested''
      \<and> get_field (get_field req ''destReq'') ''amtRequested'' = get_prop a ''destAmount''
      \<and> has_key (get_field wire ''destReq'') ''amtRequested''
      \<and> get_field (get_field wire ''destReq'') ''amtRequested'' = to_json (get_prop a ''destAmount'')"
    if "get_prop a ''destAmount'' \<noteq> Undefined"
    using that unfolding req_def wire_def
    by (simp add: wire_destReq body_destReq has_key_def get_prop_def)
  have no_dst: "\<not> has_key (get_field req ''destReq'') ''amtRequested''
      \<and> \<not> has_key (get_field wire ''destReq'') ''amtRequested''"
    if "get_prop a ''destAmount'' = Undefined"
    using that unfolding req_def wire_def
    by (simp add: wire_destReq body_destReq has_key_def)
  show ?thesis
    using src no_src dst no_dst by blast
qed

theorem amount_exclusivity_pass_through_witness:
  "has_key (get_field (to_json (create_transaction_body
        [(''sourceCcy'', Str ''BTC''), (''sourceAmount'', Num (Finite (1 / 1000)))])) ''sourceReq'')
      ''amtRequested''
   \<and> \<not> has_key (get_field (to_json (create_transaction_body
        [(''sourceCcy'', Str ''BTC''), (''sourceAmount'', Num (Finite (1 / 1000)))])) ''destReq'')
      ''amtRequested''
   \<and> has_key (get_field (to_json (create_transaction_body
        [(''destAmount'', Num (Finite 0))])) ''destReq'') ''amtRequested''
   \<and> \<not> has_key (get_field (to_json (create_transaction_body
        [(''destAmount'', Num (Finite 0))])) ''sourceReq'') ''amtRequested''"
  using amount_exclusivity_pass_through
          [of "[(''sourceCcy'', Str ''BTC''), (''sourceAmount'', Num (Finite (1 / 1000)))]"]
        amount_exclusivity_pass_through [of "[(''destAmount'', Num (Finite 0))]"]
  by (simp add: get_prop_def)

text \<open>
  Claim C6 (KYC derivation). For every intent, \<open>destReq.kyc\<close> is a key of the request
  exactly when \<open>recipientName\<close> or \<open>countryCode\<close> is supplied. When it is present, its
  \<open>type\<close> is \<open>kycType\<close> when that is supplied and \<^verbatim>\<open>"individual"\<close> otherwise, and its
  \<open>details\<close> hold \<open>legalFullName = recipientName\<close> and \<open>countryCode = countryCode\<close>.
  A field is supplied when it is a truthy value, the test of the handler
  (\<^verbatim>\<open>a.recipientName || a.countryCode\<close>, \<^verbatim>\<open>a.kycType || "individual"\<close>): an absent
  field and an empty string are both not supplied.
\<close>

theorem kyc_derivation:
  fixes a :: "(string \<times> jsval) list"
  defines "req \<equiv> create_transaction_body a"
  defines "wire \<equiv> to_json (create_transaction_body a)"
  defines "supplied \<equiv> truthy (get_prop a ''recipientName'') \<or> truthy (get_prop a ''countryCode'')"
  shows
  "(has_key (get_field req ''destReq'') ''kyc'' \<longleftrightarrow> supplied)
 \<and> (has_key (get_field wire ''destReq'') ''kyc'' \<longleftrightarrow> supplied)
 \<and> (supplied \<longrightarrow>
      get_field (get_field req ''destReq'') ''kyc'' =
        Obj [(''type'', if truthy (get_prop a ''kycType'') then get_prop a ''kycType''
                        else Str ''individual''),
             (''details'', Obj [(''legalFullName'', get_prop a ''recipientName''),
                                (''countryCode'', get_prop a ''countryCode'')])]
    \<and> get_field (get_field wire ''destReq'') ''kyc'' =
        to_json (get_field (get_field req ''destReq'') ''kyc''))"
proof -
  have body_keys: "has_key (get_field req ''destReq'') ''kyc'' \<longleftrightarrow> supplied"
    unfolding req_def supplied_def
    by (auto simp add: body_destReq has_key_def truthy_kyc)
  have wire_keys: "has_key (get_field wire ''destReq'') ''kyc'' \<longleftrightarrow> supplied"
    unfolding wire_def supplied_def
    by (auto simp add: wire_destReq body_destReq has_key_def truthy_kyc kyc_Undefined)
  have body_val: "get_field (get_field req ''destReq'') ''kyc'' = kyc a" if supplied
    using that unfolding req_def supplied_def
    by (auto simp add: body_destReq truthy_kyc get_prop_def)
  have wire_val: "get_field (get_field wire ''destReq'') ''kyc'' = to_json (kyc a)" if supplied
    using that unfolding wire_def supplied_def
    by (auto simp add: wire_destReq body_destReq truthy_kyc kyc_Undefined get_prop_def)
  have val: "kyc a = Obj [(''type'', if truthy (get_prop a ''kycType'') then get_prop a ''kycType''
                        else Str ''individual''),
             (''details'', Obj [(''legalFullName'', get_prop a ''recipientName''),
                                (''countryCode'', get_prop a ''countryCode'')])]" if supplied
    using that unfolding supplied_def by (rule kyc_value)
  show ?thesis
    using body_keys wire_keys body_val wire_val val by metis
qed

theorem kyc_derivation_witness:
  "get_field (get_field (create_transaction_body [(''recipientName'', Str ''Jane Doe'')])
      ''destReq'') ''kyc'' =
     Obj [(''type'', Str ''individual''),
          (''details'', Obj [(''legalFullName'', Str ''Jane Doe''), (''countryCode'', Undefined)])]
   \<and> get_field (get_field (to_json (create_transaction_body [(''recipientName'', Str ''Jane Doe'')]))
      ''destReq'') ''kyc'' =
     Obj [(''type'', Str ''individual''), (''details'', Obj [(''legalFullName'', Str ''Jane Doe'')])]"
  using kyc_derivation [of "[(''recipientName'', Str ''Jane Doe'')]"]
  by (simp add: get_prop_def)

text \<open>
  Claim C7 (source-of-funds derivation). For every intent, the request has a top-level
  key \<open>sourceOfFunds\<close> exactly when \<open>bankAcctNum\<close> is supplied; when present it is
  exactly \<^verbatim>\<open>{purpose: 1, source: 5, relationship: 3}\<close>; otherwise the key does not exist,
  so it is not null either. The field is supplied when it is truthy, the test of the
  handler (\<^verbatim>\<open>if (a.bankAcctNum)\<close>): an absent field and an empty string are both not
  supplied.
\<close>

theorem source_of_funds_derivation:
  fixes a :: "(string \<times> jsval) list"
  defines "req \<equiv> create_transaction_body a"
  defines "wire \<equiv> to_json (create_transaction_body a)"
  defines "sof \<equiv> Obj [(''purpose'', Num (Finite 1)), (''source'', Num (Finite 5)),
                        (''relationship'', Num (Finite 3))]"
  shows
  "(has_key req ''sourceOfFunds'' \<longleftrightarrow> truthy (get_prop a ''bankAcctNum''))
 \<and> (has_key wire ''sourceOfFunds'' \<longleftrightarrow> truthy (get_prop a ''bankAcctNum''))
 \<and> (truthy (get_prop a ''bankAcctNum'') \<longrightarrow>
      get_field req ''sourceOfFunds'' = sof \<and> get_field wire ''sourceOfFunds'' = sof)
 \<and> (\<not> truthy (get_prop a ''bankAcctNum'') \<longrightarrow>
      ''sourceOfFunds'' \<notin> set (own_keys req) \<and> ''sourceOfFunds'' \<notin> set (own_keys wire)
    \<and> get_field wire ''sourceOfFunds'' \<noteq> Null)"
  unfolding req_def wire_def sof_def
  by (simp add: create_transaction_body_def sourceOfFunds_def has_key_def get_prop_def)

theorem source_of_funds_derivation_witness:
  "get_field (to_json (create_transaction_body [(''bankAcctNum'', Str ''0123456789'')]))
      ''sourceOfFunds'' =
     Obj [(''purpose'', Num (Finite 1)), (''source'', Num (Finite 5)),
          (''relationship'', Num (Finite 3))]
   \<and> ''sourceOfFunds'' \<notin> set (own_keys (to_json (create_transaction_body
        [(''sourceCcy'', Str ''BTC'')])))"
  using source_of_funds_derivation [of "[(''bankAcctNum'', Str ''0123456789'')]"]
        source_of_funds_derivation [of "[(''sourceCcy'', Str ''BTC'')]"]
  by (simp add: get_prop_def)

text \<open>
  Claim C9 (\<open>extRefId\<close> pass-through), as stated: the request includes the top-level
  \<open>extRefId\<close> only when the intent supplies a non-empty one, and leaves it out when the
  intent's \<open>extRefId\<close> is absent or empty. The handler writes \<^verbatim>\<open>extRefId: a.extRefId\<close>
  with no test, so an empty \<open>extRefId\<close> is sent as it is.
\<close>

theorem ext_ref_id_empty_counterexample:
  "has_key (create_transaction_body [(''extRefId'', Str '''')]) ''extRefId''
   \<and> has_key (to_json (create_transaction_body [(''extRefId'', Str '''')])) ''extRefId''
   \<and> get_field (to_json (create_transaction_body [(''extRefId'', Str '''')])) ''extRefId'' = Str ''''"
  by (simp add: create_transaction_body_def has_key_def get_prop_def)

text \<open>
  Claim C9, amended. The request body always has the key \<open>extRefId\<close>, holding the
  intent's value unchanged; in the JSON that is sent the key is left out exactly when
  the intent's \<open>extRefId\<close> is absent (\<^verbatim>\<open>undefined\<close>), and is otherwise present with the
  intent's value, the empty string included.
\<close>

theorem ext_ref_id_pass_through:
  fixes a :: "(string \<times> jsval) list"
  defines "req \<equiv> create_transaction_body a"
  defines "wire \<equiv> to_json (create_transaction_body a)"
  shows
  "has_key req ''extRefId''
 \<and> get_field req ''extRefId'' = get_prop a ''extRefId''
 \<and> (has_key wire ''extRefId'' \<longleftrightarrow> get_prop a ''extRefId'' \<noteq> Undefined)
 \<and> get_field wire ''extRefId'' = to_json (get_prop a ''extRefId'')"
  unfolding req_def wire_def
  by (simp add: create_transaction_body_def has_key_def get_prop_def)

theorem ext_ref_id_pass_through_witness:
  "has_key (to_json (create_transaction_body [(''extRefId'', Str ''order-123'')])) ''extRefId''
   \<and> get_field (to_json (create_transaction_body [(''extRefId'', Str ''order-123'')])) ''extRefId''
       = Str ''order-123''
   \<and> \<not> has_key (to_json (create_transaction_body [(''sourceCcy'', Str ''BTC'')])) ''extRefId''"
  using ext_ref_id_pass_through [of "[(''extRefId'', Str ''order-123'')]"]
        ext_ref_id_pass_through [of "[(''sourceCcy'', Str ''BTC'')]"]
  by (simp add: get_prop_def)

section \<open>Properties of the session manager and the request dispatcher\<close>

lemmas io_defs = bindE_def ret_def throw_def lift_def this_def assign_def Date_now_def
  await_fetch_def

lemma ensureAuthenticated_cached:
  "authenticated c w \<Longrightarrow> ensureAuthenticated rt (c, w) = (Inr (cachedAuthResponse c), c, w)"
  by (simp add: ensureAuthenticated_def)

lemma ensure_at_times_cached:
  assumes "truthy (cachedAuthResponse c)" "truthy (accessToken c)" "truthy (accountId c)"
    and "\<forall>t \<in> set ts. num_less (Finite (of_int t)) (tokenExpiry c)"
  shows "fst (ensure_at_times rt ts (c, w)) = c \<and> sent (snd (ensure_at_times rt ts (c, w))) = sent w"
  using assms(4)
proof (induction ts arbitrary: w)
  case Nil
  then show ?case by simp
next
  case (Cons t ts)
  have "authenticated c (w\<lparr>now := t\<rparr>)"
    using assms(1-3) Cons.prems by (simp add: authenticated_def)
  then have "ensureAuthenticated rt (c, w\<lparr>now := t\<rparr>) = (Inr (cachedAuthResponse c), c, w\<lparr>now := t\<rparr>)"
    by (rule ensureAuthenticated_cached)
  moreover have "fst (ensure_at_times rt ts (c, w\<lparr>now := t\<rparr>)) = c
      \<and> sent (snd (ensure_at_times rt ts (c, w\<lparr>now := t\<rparr>))) = sent (w\<lparr>now := t\<rparr>)"
    using Cons.IH Cons.prems by simp
  ultimately show ?case by simp
qed

lemma example_client_authenticated: "authenticated example_client example_world"
  by (simp add: authenticated_def example_client_def example_world_def)

text \<open>
  Claim C4 (idempotent session caching), as stated: for every session with a cached
  auth response, a non-null access token and account id and a clock reading strictly
  before the cached expiry, \<^verbatim>\<open>ensureAuthenticated\<close> returns the cached session and
  performs no network call. The guard of the code is \<^verbatim>\<open>this.cachedAuthResponse &&
  this.accessToken && this.accountId && Date.now() < this.tokenExpiry\<close>, and an empty
  string is not null but is falsy: a client whose access token is the empty string
  sends the handshake although its session has not expired.
\<close>

theorem idempotent_session_caching_counterexample:
  "cachedAuthResponse empty_token_client \<noteq> Null
   \<and> accessToken empty_token_client \<noteq> Null
   \<and> accountId empty_token_client \<noteq> Null
   \<and> num_less (Finite (of_int (now example_world))) (tokenExpiry empty_token_client)
   \<and> sent (snd (snd (ensureAuthenticated example_runtime (empty_token_client, example_world))))
       = [auth_request example_runtime empty_token_client]"
  by (simp add: empty_token_client_def example_client_def example_world_def
      ensureAuthenticated_def authenticated_def io_defs fetch_def example_remote_def
      auth_request_def ok_def)

text \<open>
  Claim C4, amended. For every session with a cached auth response, an access token
  and an account id that are each truthy (not null and not an empty string: the test of
  the code) and a clock reading strictly before the cached expiry,
  \<^verbatim>\<open>ensureAuthenticated\<close> returns the cached response and leaves the client's fields and
  the world as they were, so it sends nothing; and any number of further calls, at any
  clock readings before the expiry, leave the client as it was and the list of requests
  sent as it was.
\<close>

theorem idempotent_session_caching:
  assumes "truthy (cachedAuthResponse c)" and "truthy (accessToken c)" and "truthy (accountId c)"
    and "num_less (Finite (of_int (now w))) (tokenExpiry c)"
    and "\<forall>t \<in> set ts. num_less (Finite (of_int t)) (tokenExpiry c)"
  shows "ensureAuthenticated rt (c, w) = (Inr (cachedAuthResponse c), c, w)
       \<and> fst (ensure_at_times rt ts (c, w)) = c
       \<and> sent (snd (ensure_at_times rt ts (c, w))) = sent w"
proof -
  have "authenticated c w"
    using assms(1-4) by (simp add: authenticated_def)
  then have "ensureAuthenticated rt (c, w) = (Inr (cachedAuthResponse c), c, w)"
    by (rule ensureAuthenticated_cached)
  then show ?thesis
    using ensure_at_times_cached [OF assms(1-3) assms(5)] by simp
qed

theorem idempotent_session_caching_witness:
  "ensureAuthenticated example_runtime (example_client, example_world)
     = (Inr (cachedAuthResponse example_client), example_client, example_world)
   \<and> fst (ensure_at_times example_runtime [1001, 1500, 1999] (example_client, example_world))
       = example_client
   \<and> sent (snd (ensure_at_times example_runtime [1001, 1500, 1999] (example_client, example_world)))
       = []"
proof -
  have 1: "truthy (cachedAuthResponse example_client)" "truthy (accessToken example_client)"
    "truthy (accountId example_client)"
    by (simp_all add: example_client_def)
  have 2: "num_less (Finite (of_int (now example_world))) (tokenExpiry example_client)"
    by (simp add: example_client_def example_world_def)
  have 3: "\<forall>t \<in> set [1001, 1500, 1999]. num_less (Finite (of_int t)) (tokenExpiry example_client)"
    by (simp add: example_client_def)
  show ?thesis
    using idempotent_session_caching [OF 1 2 3, of example_runtime]
    by (simp add: example_world_def)
qed


lemma request_forward:
  assumes "ensureAuthenticated rt (c, w) = (Inr a, c0, w0)"
    and "to_string rt (accessToken c0) = Inr tok"
    and "fetch (api_request c0 tok meth path payload) w0 = (out, w1)"
  shows "request rt meth path payload (c, w) =
     ((case out of Inl e \<Rightarrow> Inl e
       | Inr r \<Rightarrow> if \<not> ok r then Inl (api_error rt r) else response_json r), c0, w1)"
  using assms by (simp add: request_def api_request_def io_defs split: sum.splits)




section \<open>Properties of the number arithmetic\<close>

text \<open>
  Rounding to binary64 moves a value of the normal range by at most \<open>2\<^sup>-\<^sup>5\<^sup>3\<close> of its
  magnitude; hence dividing an integer below \<open>2\<^sup>5\<^sup>1\<close> by \<open>10\<^sup>8\<close>, multiplying the
  quotient by \<open>10\<^sup>8\<close> and rounding to the nearest integer gives the integer back.
\<close>

lemma round_ties_even_error: "\<bar>of_int (round_ties_even m) - m\<bar> \<le> 1 / 2"
proof -
  have "of_int \<lfloor>m\<rfloor> \<le> m" "m < of_int \<lfloor>m\<rfloor> + 1"
    by linarith+
  then show ?thesis
    unfolding round_ties_even_def Let_def by (auto simp add: abs_le_iff)
qed

lemma pow2_int: "0 \<le> k \<Longrightarrow> (of_int (2 ^ nat k) :: rat) = power_int 2 k"
  by (simp add: power_int_def)

lemma binade_bounds:
  assumes "x \<noteq> 0"
  shows "power_int 2 (binade x) \<le> \<bar>x\<bar> \<and> \<bar>x\<bar> < power_int 2 (binade x + 1)"
proof -
  obtain p q where pq: "quotient_of \<bar>x\<bar> = (p, q)"
    by (cases "quotient_of \<bar>x\<bar>")
  have q: "0 < q"
    using pq by (rule quotient_of_denom_pos)
  have x: "\<bar>x\<bar> = of_int p / of_int q"
    using pq by (rule quotient_of_div)
  have "0 < \<bar>x\<bar>" using assms by simp
  then have p: "0 < p"
    using q unfolding x by (simp add: zero_less_divide_iff)
  define bp where "bp = bitlen p"
  define bq where "bq = bitlen q"
  have bp: "1 \<le> bp" "2 ^ nat (bp - 1) \<le> p" "p < 2 ^ nat bp"
    using bitlen_bounds [OF p] p bitlen_eq_zero_iff [of p] bitlen_nonneg [of p]
    unfolding bp_def by auto
  have bq: "1 \<le> bq" "2 ^ nat (bq - 1) \<le> q" "q < 2 ^ nat bq"
    using bitlen_bounds [OF q] q bitlen_eq_zero_iff [of q] bitlen_nonneg [of q]
    unfolding bq_def by auto
  have P: "power_int 2 (bp - 1) \<le> (of_int p :: rat)" "(of_int p :: rat) < power_int 2 bp"
    using bp pow2_int [of "bp - 1"] pow2_int [of bp]
    by (metis of_int_le_iff diff_ge_0_iff_ge, metis of_int_less_iff bp(1) order_trans zero_le_one)
  have Q: "power_int 2 (bq - 1) \<le> (of_int q :: rat)" "(of_int q :: rat) < power_int 2 bq"
    using bq pow2_int [of "bq - 1"] pow2_int [of bq]
    by (metis of_int_le_iff diff_ge_0_iff_ge, metis of_int_less_iff bq(1) order_trans zero_le_one)
  have pos: "0 < (power_int 2 k :: rat)" for k
    by simp
  have "power_int 2 (bp - 1) / power_int 2 bq < (of_int p :: rat) / of_int q"
    using frac_less2 [OF pos P(1) _ Q(2)] q by simp
  moreover have "power_int 2 (bp - 1) / power_int 2 bq = (power_int 2 (bp - bq - 1) :: rat)"
    using power_int_diff [of "2 :: rat" "bp - 1" bq] by (simp add: algebra_simps)
  ultimately have lower: "power_int 2 (bp - bq - 1) < \<bar>x\<bar>"
    unfolding x by simp
  have "(of_int p :: rat) / of_int q < power_int 2 bp / power_int 2 (bq - 1)"
    using frac_less [OF _ P(2) pos Q(1)] p by simp
  moreover have "power_int 2 bp / power_int 2 (bq - 1) = (power_int 2 (bp - bq + 1) :: rat)"
    using power_int_diff [of "2 :: rat" bp "bq - 1"] by (simp add: algebra_simps)
  ultimately have upper: "\<bar>x\<bar> < power_int 2 (bp - bq + 1)"
    unfolding x by simp
  have b: "binade x = (if power_int 2 (bp - bq) \<le> \<bar>x\<bar> then bp - bq else bp - bq - 1)"
    unfolding binade_def pq bp_def bq_def by (simp add: Let_def)
  show ?thesis
  proof (cases "power_int 2 (bp - bq) \<le> \<bar>x\<bar>")
    case True
    then show ?thesis using upper b by simp
  next
    case False
    then show ?thesis using lower b by simp
  qed
qed

lemma binade_ge:
  assumes "power_int 2 k \<le> \<bar>x\<bar>"
  shows "k \<le> binade x"
proof -
  have "0 < (power_int 2 k :: rat)"
    by simp
  then have "0 < \<bar>x\<bar>"
    using assms by (rule less_le_trans)
  then have "x \<noteq> 0"
    by simp
  then have "\<bar>x\<bar> < power_int 2 (binade x + 1)"
    using binade_bounds by blast
  then have "power_int 2 k < (power_int 2 (binade x + 1) :: rat)"
    using assms by simp
  then have "k < binade x + 1"
    using power_int_increasing [of "binade x + 1" k "2 :: rat"] by (cases "k < binade x + 1") auto
  then show ?thesis by simp
qed

lemma round_binary64_error:
  assumes lo: "power_int 2 (- 1022) \<le> \<bar>x\<bar>" and hi: "\<bar>x\<bar> \<le> 2 ^ 1023"
  shows "\<exists>r. round_binary64 x = Finite r \<and> \<bar>r - x\<bar> \<le> \<bar>x\<bar> / 2 ^ 53"
proof -
  have "0 < (power_int 2 (- 1022) :: rat)"
    by simp
  then have "0 < \<bar>x\<bar>"
    using lo by (rule less_le_trans)
  then have x0: "x \<noteq> 0"
    by simp
  define e where "e = binade x"
  define ulp :: rat where "ulp = power_int 2 (e - 52)"
  define n where "n = round_ties_even (x / ulp)"
  define r where "r = of_int n * ulp"
  have e: "- 1022 \<le> e"
    unfolding e_def using lo by (rule binade_ge)
  have ulp: "0 < ulp"
    unfolding ulp_def by simp
  have "\<bar>of_int n - x / ulp\<bar> \<le> 1 / 2"
    unfolding n_def by (rule round_ties_even_error)
  then have "\<bar>of_int n - x / ulp\<bar> * ulp \<le> 1 / 2 * ulp"
    using ulp by (simp add: mult_right_mono)
  moreover have "(of_int n - x / ulp) * ulp = r - x"
    using ulp unfolding r_def by (simp add: field_simps)
  then have "\<bar>of_int n - x / ulp\<bar> * ulp = \<bar>r - x\<bar>"
    using ulp by (metis abs_mult abs_of_pos)
  ultimately have err: "\<bar>r - x\<bar> \<le> ulp / 2"
    by simp
  have "ulp = power_int 2 e / 2 ^ 52"
    unfolding ulp_def using power_int_diff [of "2 :: rat" e 52] by simp
  moreover have "power_int 2 e \<le> \<bar>x\<bar>"
    unfolding e_def using binade_bounds [OF x0] by simp
  ultimately have ulp_le: "ulp / 2 \<le> \<bar>x\<bar> / 2 ^ 53"
    by simp
  have err': "\<bar>r - x\<bar> \<le> \<bar>x\<bar> / 2 ^ 53"
    using err ulp_le by simp
  have "\<bar>r\<bar> \<le> \<bar>x\<bar> + \<bar>x\<bar> / 2 ^ 53"
    using err' by linarith
  also have "\<dots> < 2 ^ 1024"
    using hi by simp
  finally have fin: "\<not> 2 ^ 1024 \<le> \<bar>r\<bar>"
    by simp
  have "round_binary64 x = Finite r"
    using x0 e fin unfolding round_binary64_def r_def n_def ulp_def e_def
    by (simp add: Let_def max_def)
  then show ?thesis
    using err' by blast
qed


lemma floor_rat_divide_numeral:
  "\<lfloor>numeral a / numeral b :: rat\<rfloor> = numeral a div numeral b"
  by (metis floor_divide_of_int_eq of_int_numeral)

lemma floor_rat_one_divide_numeral:
  "\<lfloor>1 / numeral b :: rat\<rfloor> = 1 div numeral b"
  by (metis floor_divide_of_int_eq of_int_1 of_int_numeral)

lemma binade_eqI:
  assumes "power_int 2 e \<le> \<bar>x\<bar>" and "\<bar>x\<bar> < power_int 2 (e + 1)"
  shows "binade x = e"
proof -
  have "0 < (power_int 2 e :: rat)"
    by simp
  then have "0 < \<bar>x\<bar>"
    using assms(1) by (rule less_le_trans)
  then have "x \<noteq> 0"
    by simp
  then have "power_int 2 (binade x) \<le> \<bar>x\<bar>"
    using binade_bounds by blast
  then have "power_int 2 (binade x) < (power_int 2 (e + 1) :: rat)"
    using assms(2) by simp
  then have "binade x < e + 1"
    using power_int_increasing [of "e + 1" "binade x" "2 :: rat"]
    by (cases "binade x < e + 1") auto
  moreover have "e \<le> binade x"
    using assms(1) by (rule binade_ge)
  ultimately show ?thesis by simp
qed

lemma round_binary64_eval:
  assumes "power_int 2 e \<le> \<bar>x\<bar>" and "\<bar>x\<bar> < power_int 2 (e + 1)" and "- 1022 \<le> e"
    and "round_ties_even (x / power_int 2 (e - 52)) = n"
    and "\<bar>of_int n * power_int 2 (e - 52)\<bar> < (2 ^ 1024 :: rat)"
  shows "round_binary64 x = Finite (of_int n * power_int 2 (e - 52))"
proof -
  have b: "binade x = e"
    using assms(1,2) by (rule binade_eqI)
  have "0 < (power_int 2 e :: rat)"
    by simp
  then have "0 < \<bar>x\<bar>"
    using assms(1) by (rule less_le_trans)
  then have "x \<noteq> 0"
    by simp
  then show ?thesis
    using assms(3,4,5) unfolding round_binary64_def b by (simp add: Let_def max_def)
qed

lemma sum_bound: "a \<le> u \<Longrightarrow> c \<le> a + b \<Longrightarrow> b \<le> v \<Longrightarrow> c \<le> v + (u :: rat)"
  by linarith

lemma sats_round_trip:
  fixes s :: int
  assumes "\<bar>s\<bar> < 2 ^ 51"
  shows "math_round (num_mul (num_div (Finite (of_int s)) 100000000) 100000000) = Finite (of_int s)"
proof (cases "s = 0")
  case True
  then show ?thesis
    by (simp add: round_binary64_def floor_rat_one_divide_numeral)
next
  case False
  define a :: rat where "a = \<bar>of_int s\<bar>"
  define x :: rat where "x = of_int s / 100000000"
  have "1 \<le> \<bar>s\<bar>" "\<bar>s\<bar> \<le> 2 ^ 51 - 1"
    using False assms by linarith+
  then have "(of_int 1 :: rat) \<le> of_int \<bar>s\<bar>" "(of_int \<bar>s\<bar> :: rat) \<le> of_int (2 ^ 51 - 1)"
    by (simp_all only: of_int_le_iff)
  then have a1: "1 \<le> a" and a2: "a \<le> 2 ^ 51 - 1"
    unfolding a_def by simp_all
  have xa: "\<bar>x\<bar> = a / 100000000"
    unfolding x_def a_def by simp
  have tiny: "power_int 2 (- 1022) \<le> (1 / 200000000 :: rat)"
    by (simp add: power_int_minus field_simps)
  have "power_int 2 (- 1022) \<le> \<bar>x\<bar>" "\<bar>x\<bar> \<le> 2 ^ 1023"
    using a1 a2 tiny unfolding xa by simp_all
  then obtain r1 where r1: "round_binary64 x = Finite r1" "\<bar>r1 - x\<bar> \<le> \<bar>x\<bar> / 2 ^ 53"
    using round_binary64_error by blast
  define y :: rat where "y = r1 * 100000000"
  have "y - of_int s = (r1 - x) * 100000000"
    unfolding y_def x_def by simp
  then have "\<bar>y - of_int s\<bar> = \<bar>r1 - x\<bar> * \<bar>100000000\<bar>"
    by (simp only: abs_mult)
  then have "\<bar>y - of_int s\<bar> = \<bar>r1 - x\<bar> * 100000000"
    by simp
  also have "\<dots> \<le> \<bar>x\<bar> / 2 ^ 53 * 100000000"
    using r1(2) by simp
  also have "\<dots> = a / 2 ^ 53"
    unfolding xa by simp
  finally have ys: "\<bar>y - of_int s\<bar> \<le> a / 2 ^ 53" .
  have ya: "\<bar>y\<bar> \<le> a + a / 2 ^ 53" "a - a / 2 ^ 53 \<le> \<bar>y\<bar>"
    using ys unfolding a_def by linarith+
  have "power_int 2 (- 1022) \<le> \<bar>y\<bar>" "\<bar>y\<bar> \<le> 2 ^ 1023"
    using ya a1 a2 tiny by simp_all
  then obtain r2 where r2: "round_binary64 y = Finite r2" "\<bar>r2 - y\<bar> \<le> \<bar>y\<bar> / 2 ^ 53"
    using round_binary64_error by blast
  have "\<bar>y\<bar> / 2 ^ 53 \<le> (a + a / 2 ^ 53) / 2 ^ 53"
    using ya(1) by (simp add: divide_right_mono)
  then have "\<bar>r2 - y\<bar> \<le> (a + a / 2 ^ 53) / 2 ^ 53"
    using r2(2) by (rule order_trans [rotated])
  moreover have "\<bar>r2 - of_int s\<bar> \<le> \<bar>r2 - y\<bar> + \<bar>y - of_int s\<bar>"
    by linarith
  ultimately have "\<bar>r2 - of_int s\<bar> \<le> a / 2 ^ 53 + (a + a / 2 ^ 53) / 2 ^ 53"
    using ys by (rule sum_bound)
  also have "\<dots> < 1 / 2"
    using a2 by simp
  finally have "of_int s \<le> r2 + 1 / 2" "r2 + 1 / 2 < of_int s + 1"
    by linarith+
  then have "\<lfloor>r2 + 1 / 2\<rfloor> = s"
    by (simp add: floor_unique)
  then show ?thesis
    using r1(1) r2(1) unfolding x_def y_def by simp
qed

lemma sats_round_trip_fails:
  "math_round (num_mul (num_div (Finite 3355443200000019) 100000000) 100000000)
     = Finite 3355443200000020"
proof -
  define r1 :: rat where "r1 = of_int 4503599627370522 * power_int 2 (25 - 52)"
  define r2 :: rat where "r2 = of_int 6710886400000039 * power_int 2 (51 - 52)"
  have 1: "round_binary64 (3355443200000019 / 100000000) = Finite r1"
    unfolding r1_def by (rule round_binary64_eval)
      (simp_all add: round_ties_even_def Let_def floor_rat_divide_numeral)
  have 2: "round_binary64 (r1 * 100000000) = Finite r2"
    unfolding r1_def r2_def by (rule round_binary64_eval)
      (simp_all add: round_ties_even_def Let_def floor_rat_divide_numeral)
  have 3: "\<lfloor>r2 + 1 / 2\<rfloor> = 3355443200000020"
    unfolding r2_def by simp
  show ?thesis
    by (simp add: 1 2 3)
qed

text \<open>
  Claim C1 (satoshi round-trip), as stated: for every integer \<open>s\<close>, converting \<open>s\<close>
  satoshis to BTC (\<^verbatim>\<open>amountSats / 100_000_000\<close>) and back
  (\<^verbatim>\<open>Math.round(btcAmount * 100_000_000)\<close>) yields \<open>s\<close>. In binary64 arithmetic the
  integer 3355443200000019 comes back as 3355443200000020.
\<close>

theorem satoshi_round_trip_counterexample:
  "btcAmount example_runtime (Num (Finite 3355443200000019)) Undefined
     = Inr (Num (num_div (Finite 3355443200000019) 100000000))
   \<and> reported_amountSats example_runtime (Num (num_div (Finite 3355443200000019) 100000000))
     = Inr (Num (Finite 3355443200000020))
   \<and> Num (Finite 3355443200000020) \<noteq> Num (Finite 3355443200000019)"
  using sats_round_trip_fails
  by (simp add: btcAmount_def reported_amountSats_def del: num_div.simps num_mul.simps)

text \<open>
  Claim C1, amended. For every integer \<open>s\<close> with \<open>\<bar>s\<bar> < 2\<^sup>5\<^sup>1\<close> (about
  \<open>2.25 \<times> 10\<^sup>1\<^sup>5\<close> satoshis, more than the 21 million BTC that can exist), the handler
  takes \<open>amountSats = s\<close> to the BTC amount \<open>s / 100,000,000\<close>, rounded to a binary64
  number, and reports \<^verbatim>\<open>Math.round\<close> of that amount times 100,000,000, which is \<open>s\<close>
  exactly.
\<close>

theorem satoshi_round_trip:
  fixes s :: int
  assumes "\<bar>s\<bar> < 2 ^ 51"
  shows "btcAmount rt (Num (Finite (of_int s))) amountBtc
           = Inr (Num (num_div (Finite (of_int s)) 100000000))
       \<and> reported_amountSats rt (Num (num_div (Finite (of_int s)) 100000000))
           = Inr (Num (Finite (of_int s)))"
  using sats_round_trip [OF assms]
  by (simp add: btcAmount_def reported_amountSats_def del: num_div.simps num_mul.simps)

theorem satoshi_round_trip_witness:
  "btcAmount example_runtime (Num (Finite 10000)) Undefined
     = Inr (Num (num_div (Finite 10000) 100000000))
   \<and> reported_amountSats example_runtime (Num (num_div (Finite 10000) 100000000))
     = Inr (Num (Finite 10000))
   \<and> num_div (Finite 10000) 100000000 = Finite (7378697629483821 / 2 ^ 66)"
proof -
  have "round_binary64 (10000 / 100000000)
          = Finite (of_int 7378697629483821 * power_int 2 (- 14 - 52))"
    by (rule round_binary64_eval)
      (simp_all add: round_ties_even_def Let_def floor_rat_divide_numeral power_int_minus)
  then have "num_div (Finite 10000) 100000000 = Finite (7378697629483821 / 2 ^ 66)"
    by (simp add: power_int_minus field_simps)
  then show ?thesis
    using satoshi_round_trip [of 10000 example_runtime Undefined]
    by (simp del: num_div.simps num_mul.simps)
qed

section \<open>Properties of the Lightning shortcut\<close>

lemma bindE_InrE:
  assumes "bindE m f s = (Inr y, s'')"
  obtains x s' where "m s = (Inr x, s')" and "f x s' = (Inr y, s'')"
  using assms by (auto simp add: bindE_def split: prod.splits sum.splits)

lemma lift_Inr_iff: "lift r s = (Inr x, s') \<longleftrightarrow> r = Inr x \<and> s' = s"
  by (auto simp add: lift_def)

lemma ret_Inr_iff: "ret x s = (Inr y, s') \<longleftrightarrow> y = x \<and> s' = s"
  by (auto simp add: ret_def)

lemma ensureAuthenticated_sent:
  assumes "ensureAuthenticated rt (c, w) = (r, c', w')"
  shows "config c' = config c \<and> remote w' = remote w
       \<and> (sent w' = sent w \<or> sent w' = sent w @ [auth_request rt c])"
proof (cases "authenticated c w")
  case True
  then show ?thesis
    using assms by (simp add: ensureAuthenticated_def)
next
  case False
  obtain out el where rem: "remote w (sent w) (auth_request rt c) = (out, el)"
    by (cases "remote w (sent w) (auth_request rt c)")
  show ?thesis
    using assms False rem
    by (auto simp add: ensureAuthenticated_def io_defs fetch_def Let_def
             split: sum.splits if_splits prod.splits)
qed

lemma request_InrE:
  assumes "request rt meth path payload (c, w) = (Inr v, c', w')"
  obtains a w0 tok r where
    "ensureAuthenticated rt (c, w) = (Inr a, c', w0)"
    "to_string rt (accessToken c') = Inr tok"
    "fetch \<lparr>url = apiUrl (config c') @ path, http_method = meth,
            headers = [(''Authorization'', ''Bearer '' @ tok)]
                      @ (if truthy payload then [(''Content-Type'', ''application/json'')] else []),
            body = (if truthy payload then Some (to_json payload) else None)\<rparr> w0 = (Inr r, w')"
    "ok r" "json r = Some v"
proof -
  from assms [unfolded request_def] obtain a s0 where
    ea0: "ensureAuthenticated rt (c, w) = (Inr a, s0)"
    and rest0: "bindE this (\<lambda>c.
     bindE (lift (to_string rt (accessToken c))) (\<lambda>token.
     bindE (await_fetch
              \<lparr>url = apiUrl (config c) @ path,
               http_method = meth,
               headers = [(''Authorization'', ''Bearer '' @ token)]
                         @ (if truthy payload then [(''Content-Type'', ''application/json'')]
                            else []),
               body = (if truthy payload then Some (to_json payload) else None)\<rparr>) (\<lambda>response.
     if \<not> ok response then throw (api_error rt response)
     else lift (response_json response)))) s0 = (Inr v, c', w')"
    by (rule bindE_InrE)
  obtain c0 w0 where s0: "s0 = (c0, w0)"
    by (cases s0)
  note ea = ea0 [unfolded s0] and rest = rest0 [unfolded s0]
  from rest obtain tok where tok: "to_string rt (accessToken c0) = Inr tok"
    by (auto simp add: io_defs split: sum.splits)
  let ?req = "\<lparr>url = apiUrl (config c0) @ path, http_method = meth,
            headers = [(''Authorization'', ''Bearer '' @ tok)]
                      @ (if truthy payload then [(''Content-Type'', ''application/json'')] else []),
            body = (if truthy payload then Some (to_json payload) else None)\<rparr>"
  obtain out w1 where f: "fetch ?req w0 = (out, w1)"
    by (cases "fetch ?req w0")
  from rest tok f obtain r where r: "out = Inr r" "ok r" "json r = Some v" "c' = c0" "w' = w1"
    by (auto simp add: io_defs response_json_def split: sum.splits if_splits option.splits)
  show ?thesis
    using that [of a w0 tok r] ea tok f r by simp
qed

lemma create_lightning_invoice_InrE:
  assumes "create_lightning_invoice rt args (c, w) = (Inr result, c', w')"
  obtains btc txn c1 w1 txnId tid confirmed sourceReq confirmedId sats txnState where
    "btcAmount rt (get_prop args ''amountSats'') (get_prop args ''amountBtc'') = Inr btc"
    "request rt ''POST'' ''/api/v2/transaction''
       (lightning_invoice_request (get_prop args ''extRefId'') btc) (c, w) = (Inr txn, c1, w1)"
    "member txn ''txnId'' = Inr txnId"
    "to_string rt txnId = Inr tid"
    "request rt ''PUT'' (''/api/v2/transaction/'' @ tid @ ''/confirm'') Undefined (c1, w1)
       = (Inr confirmed, c', w')"
    "member confirmed ''sourceReq'' = Inr sourceReq"
    "member confirmed ''txnId'' = Inr confirmedId"
    "reported_amountSats rt btc = Inr sats"
    "member confirmed ''txnState'' = Inr txnState"
    "result =
       Obj [(''success'', Bool True),
            (''txnId'', confirmedId),
            (''invoice'', member_opt (member_opt sourceReq ''reqDetails'') ''paymentRequest''),
            (''qrPageUrl'', member_opt (member_opt sourceReq ''reqDetails'') ''invoicePageUrl''),
            (''amountBtc'', btc),
            (''amountSats'', sats),
            (''memo'', js_or (get_prop args ''memo'') Null),
            (''status'', txnState),
            (''message'', Str ''Lightning invoice created and confirmed. Share the invoice string or QR page URL to receive payment.'')]"
proof -
  from assms obtain btc txn s1 txnId tid confirmed sourceReq confirmedId sats txnState where
    facts: "btcAmount rt (get_prop args ''amountSats'') (get_prop args ''amountBtc'') = Inr btc"
    "request rt ''POST'' ''/api/v2/transaction''
       (lightning_invoice_request (get_prop args ''extRefId'') btc) (c, w) = (Inr txn, s1)"
    "member txn ''txnId'' = Inr txnId"
    "to_string rt txnId = Inr tid"
    "request rt ''PUT'' (''/api/v2/transaction/'' @ tid @ ''/confirm'') Undefined s1
       = (Inr confirmed, c', w')"
    "member confirmed ''sourceReq'' = Inr sourceReq"
    "member confirmed ''txnId'' = Inr confirmedId"
    "reported_amountSats rt btc = Inr sats"
    "member confirmed ''txnState'' = Inr txnState"
    "result =
       Obj [(''success'', Bool True),
            (''txnId'', confirmedId),
            (''invoice'', member_opt (member_opt sourceReq ''reqDetails'') ''paymentRequest''),
            (''qrPageUrl'', member_opt (member_opt sourceReq ''reqDetails'') ''invoicePageUrl''),
            (''amountBtc'', btc),
            (''amountSats'', sats),
            (''memo'', js_or (get_prop args ''memo'') Null),
            (''status'', txnState),
            (''message'', Str ''Lightning invoice created and confirmed. Share the invoice string or QR page URL to receive payment.'')]"
    unfolding create_lightning_invoice_def Let_def createTransaction_def confirmTransaction_def
    by (elim bindE_InrE) (simp only: lift_Inr_iff ret_Inr_iff)
  obtain c1 w1 where "s1 = (c1, w1)"
    by (cases s1)
  with facts that show thesis
    by blast
qed

lemma fetch_effect:
  assumes "fetch req w = (out, w')"
  shows "remote w' = remote w \<and> sent w' = sent w @ [req]
       \<and> (\<exists>elapsed. remote w (sent w) req = (out, elapsed))"
  using assms by (auto simp add: fetch_def Let_def split: prod.splits)

lemma member_Inr_get_field: "member v k = Inr x \<Longrightarrow> get_field v k = x"
  by (cases v) auto

lemma auth_request_config: "config c' = config c \<Longrightarrow> auth_request rt c' = auth_request rt c"
  by (simp add: auth_request_def generateSignature_def)

lemma create_lightning_invoice_returned:
  assumes "create_lightning_invoice rt args (c, w) = (Inr result, c', w')"
  shows "\<exists>btc tok0 r1 elapsed1 txn txnId tid tok1 r2 elapsed2 confirmed pre mid
          post_request put_request.
      btcAmount rt (get_prop args ''amountSats'') (get_prop args ''amountBtc'') = Inr btc
    \<and> post_request =
        \<lparr>url = apiUrl (config c) @ ''/api/v2/transaction'', http_method = ''POST'',
         headers = [(''Authorization'', ''Bearer '' @ tok0), (''Content-Type'', ''application/json'')],
         body = Some (to_json (lightning_invoice_request (get_prop args ''extRefId'') btc))\<rparr>
    \<and> get_field (lightning_invoice_request (get_prop args ''extRefId'') btc) ''sourceReq'' =
        Obj [(''ccy'', Str ''BTC''), (''method'', Str ''lightning''), (''reqDetails'', Obj [])]
    \<and> get_field (lightning_invoice_request (get_prop args ''extRefId'') btc) ''destReq'' =
        Obj [(''ccy'', Str ''BTC''), (''method'', Str ''neutronpay''), (''amtRequested'', btc),
             (''reqDetails'', Obj [])]
    \<and> remote w (sent w @ pre) post_request = (Inr r1, elapsed1) \<and> ok r1 \<and> json r1 = Some txn
    \<and> member txn ''txnId'' = Inr txnId \<and> to_string rt txnId = Inr tid
    \<and> put_request =
        \<lparr>url = apiUrl (config c) @ ''/api/v2/transaction/'' @ tid @ ''/confirm'', http_method = ''PUT'',
         headers = [(''Authorization'', ''Bearer '' @ tok1)], body = None\<rparr>
    \<and> remote w (sent w @ pre @ [post_request] @ mid) put_request = (Inr r2, elapsed2)
    \<and> ok r2 \<and> json r2 = Some confirmed
    \<and> sent w' = sent w @ pre @ [post_request] @ mid @ [put_request]
    \<and> set pre \<subseteq> {auth_request rt c} \<and> set mid \<subseteq> {auth_request rt c}
    \<and> get_field result ''invoice'' =
        member_opt (member_opt (get_field confirmed ''sourceReq'') ''reqDetails'') ''paymentRequest''
    \<and> get_field result ''qrPageUrl'' =
        member_opt (member_opt (get_field confirmed ''sourceReq'') ''reqDetails'') ''invoicePageUrl''
    \<and> get_field result ''txnId'' = get_field confirmed ''txnId''
    \<and> get_field result ''status'' = get_field confirmed ''txnState''
    \<and> get_field result ''amountBtc'' = btc"
proof -
  let ?payload = "\<lambda>btc. lightning_invoice_request (get_prop args ''extRefId'') btc"
  from assms obtain btc txn c1 w1 txnId tid confirmed sourceReq confirmedId sats txnState where
    btc: "btcAmount rt (get_prop args ''amountSats'') (get_prop args ''amountBtc'') = Inr btc"
    and post: "request rt ''POST'' ''/api/v2/transaction'' (?payload btc) (c, w) = (Inr txn, c1, w1)"
    and txnId: "member txn ''txnId'' = Inr txnId" "to_string rt txnId = Inr tid"
    and put: "request rt ''PUT'' (''/api/v2/transaction/'' @ tid @ ''/confirm'') Undefined (c1, w1)
       = (Inr confirmed, c', w')"
    and fields: "member confirmed ''sourceReq'' = Inr sourceReq"
      "member confirmed ''txnId'' = Inr confirmedId"
      "member confirmed ''txnState'' = Inr txnState"
    and result: "result =
       Obj [(''success'', Bool True),
            (''txnId'', confirmedId),
            (''invoice'', member_opt (member_opt sourceReq ''reqDetails'') ''paymentRequest''),
            (''qrPageUrl'', member_opt (member_opt sourceReq ''reqDetails'') ''invoicePageUrl''),
            (''amountBtc'', btc),
            (''amountSats'', sats),
            (''memo'', js_or (get_prop args ''memo'') Null),
            (''status'', txnState),
            (''message'', Str ''Lightning invoice created and confirmed. Share the invoice string or QR page URL to receive payment.'')]"
    by (rule create_lightning_invoice_InrE)
  have truthy_payload: "truthy (?payload btc)"
    by (simp add: lightning_invoice_request_def)
  define post_request where "post_request tok0 =
        \<lparr>url = apiUrl (config c) @ ''/api/v2/transaction'', http_method = ''POST'',
         headers = [(''Authorization'', ''Bearer '' @ tok0), (''Content-Type'', ''application/json'')],
         body = Some (to_json (?payload btc))\<rparr>" for tok0
  define put_request where "put_request tok1 =
        \<lparr>url = apiUrl (config c) @ ''/api/v2/transaction/'' @ tid @ ''/confirm'', http_method = ''PUT'',
         headers = [(''Authorization'', ''Bearer '' @ tok1)], body = None :: jsval option\<rparr>" for tok1
  from post obtain a0 w0 tok0 r1 where
    ea0: "ensureAuthenticated rt (c, w) = (Inr a0, c1, w0)"
    and "to_string rt (accessToken c1) = Inr tok0"
    and f1: "fetch \<lparr>url = apiUrl (config c1) @ ''/api/v2/transaction'', http_method = ''POST'',
            headers = [(''Authorization'', ''Bearer '' @ tok0)]
                      @ (if truthy (?payload btc) then [(''Content-Type'', ''application/json'')] else []),
            body = (if truthy (?payload btc) then Some (to_json (?payload btc)) else None)\<rparr> w0
          = (Inr r1, w1)"
    and r1: "ok r1" "json r1 = Some txn"
    by (rule request_InrE)
  from put obtain a1 w2 tok1 r2 where
    ea1: "ensureAuthenticated rt (c1, w1) = (Inr a1, c', w2)"
    and "to_string rt (accessToken c') = Inr tok1"
    and f2: "fetch \<lparr>url = apiUrl (config c') @ (''/api/v2/transaction/'' @ tid @ ''/confirm''),
            http_method = ''PUT'',
            headers = [(''Authorization'', ''Bearer '' @ tok1)]
                      @ (if truthy Undefined then [(''Content-Type'', ''application/json'')] else []),
            body = (if truthy Undefined then Some (to_json Undefined) else None)\<rparr> w2
          = (Inr r2, w')"
    and r2: "ok r2" "json r2 = Some confirmed"
    by (rule request_InrE)
  from ensureAuthenticated_sent [OF ea0] obtain pre where
    c1: "config c1 = config c" and rem0: "remote w0 = remote w"
    and pre: "sent w0 = sent w @ pre" "set pre \<subseteq> {auth_request rt c}"
    by (metis append_Nil2 empty_set empty_subsetI list.simps(15) subset_refl)
  from f1 have f1': "fetch (post_request tok0) w0 = (Inr r1, w1)"
    by (simp add: truthy_payload c1 post_request_def)
  from fetch_effect [OF f1'] obtain elapsed1 where
    rem1: "remote w1 = remote w0" and sent1: "sent w1 = sent w0 @ [post_request tok0]"
    and ans1: "remote w0 (sent w0) (post_request tok0) = (Inr r1, elapsed1)"
    by blast
  from ensureAuthenticated_sent [OF ea1] obtain mid where
    c': "config c' = config c1" and rem2: "remote w2 = remote w1"
    and mid: "sent w2 = sent w1 @ mid" "set mid \<subseteq> {auth_request rt c1}"
    by (metis append_Nil2 empty_set empty_subsetI list.simps(15) subset_refl)
  from f2 have f2': "fetch (put_request tok1) w2 = (Inr r2, w')"
    by (simp add: c' c1 put_request_def)
  from fetch_effect [OF f2'] obtain elapsed2 where
    sent2: "sent w' = sent w2 @ [put_request tok1]"
    and ans2: "remote w2 (sent w2) (put_request tok1) = (Inr r2, elapsed2)"
    by blast
  have mid': "set mid \<subseteq> {auth_request rt c}"
    using mid(2) auth_request_config [OF c1] by simp
  have a1: "remote w (sent w @ pre) (post_request tok0) = (Inr r1, elapsed1)"
    using ans1 rem0 pre(1) by simp
  have a2: "remote w (sent w @ pre @ [post_request tok0] @ mid) (put_request tok1) = (Inr r2, elapsed2)"
    using ans2 rem2 rem1 rem0 mid(1) sent1 pre(1) by simp
  have log: "sent w' = sent w @ pre @ [post_request tok0] @ mid @ [put_request tok1]"
    using sent2 mid(1) sent1 pre(1) by simp
  have shape: "get_field (?payload btc) ''sourceReq'' =
        Obj [(''ccy'', Str ''BTC''), (''method'', Str ''lightning''), (''reqDetails'', Obj [])]"
    "get_field (?payload btc) ''destReq'' =
        Obj [(''ccy'', Str ''BTC''), (''method'', Str ''neutronpay''), (''amtRequested'', btc),
             (''reqDetails'', Obj [])]"
    by (simp_all add: lightning_invoice_request_def get_prop_def)
  have res: "get_field result ''invoice'' =
        member_opt (member_opt (get_field confirmed ''sourceReq'') ''reqDetails'') ''paymentRequest''"
    "get_field result ''qrPageUrl'' =
        member_opt (member_opt (get_field confirmed ''sourceReq'') ''reqDetails'') ''invoicePageUrl''"
    "get_field result ''txnId'' = get_field confirmed ''txnId''"
    "get_field result ''status'' = get_field confirmed ''txnState''"
    "get_field result ''amountBtc'' = btc"
    using fields [THEN member_Inr_get_field] by (simp_all add: result get_prop_def)
  show ?thesis
    using btc shape a1 r1 txnId a2 r2 log pre(2) mid' res
      post_request_def [of tok0] put_request_def [of tok1]
    by blast
qed

lemma request_grows:
  assumes "request rt meth path payload (c, w) = (out, c', w')"
  shows "\<exists>rest. sent w' = sent w @ rest"
proof -
  obtain r0 c0 w0 where ea: "ensureAuthenticated rt (c, w) = (r0, c0, w0)"
    by (cases "ensureAuthenticated rt (c, w)")
  from ensureAuthenticated_sent [OF ea] obtain pre where pre: "sent w0 = sent w @ pre"
    by auto
  show ?thesis
  proof (cases r0)
    case (Inl e)
    then show ?thesis
      using assms ea pre by (auto simp add: request_def io_defs)
  next
    case (Inr a)
    show ?thesis
    proof (cases "to_string rt (accessToken c0)")
      case (Inl e)
      then show ?thesis
        using assms ea pre Inr by (auto simp add: request_def io_defs)
    next
      case tok: (Inr tok)
      obtain o1 w1 where f: "fetch (api_request c0 tok meth path payload) w0 = (o1, w1)"
        by (cases "fetch (api_request c0 tok meth path payload) w0")
      have "w' = w1"
        using assms request_forward [OF ea [unfolded Inr] tok f] by simp
      then show ?thesis
        using fetch_effect [OF f] pre by simp
    qed
  qed
qed

lemma member_not_nullish:
  "v \<noteq> Null \<Longrightarrow> v \<noteq> Undefined \<Longrightarrow> member v k = Inr (get_field v k)"
  by (cases v) simp_all

lemma lightning_post_sent:
  assumes amount: "btcAmount rt (get_prop args ''amountSats'') (get_prop args ''amountBtc'') = Inr btc"
    and ea: "ensureAuthenticated rt (c, w) = (Inr a0, c0, w0)"
    and tok: "to_string rt (accessToken c0) = Inr tok0"
  shows "\<exists>rest. sent (snd (snd (create_lightning_invoice rt args (c, w)))) =
      sent w0 @ [api_request c0 tok0 ''POST'' ''/api/v2/transaction''
                   (lightning_invoice_request (get_prop args ''extRefId'') btc)] @ rest"
proof -
  let ?payload = "lightning_invoice_request (get_prop args ''extRefId'') btc"
  let ?post = "api_request c0 tok0 ''POST'' ''/api/v2/transaction'' ?payload"
  obtain o1 w1 where f: "fetch ?post w0 = (o1, w1)"
    by (cases "fetch ?post w0")
  have s1: "sent w1 = sent w0 @ [?post]"
    using fetch_effect [OF f] by simp
  note req1 = request_forward [OF ea tok f]
  define R1 where "R1 = (case o1 of Inl e \<Rightarrow> Inl e
       | Inr r \<Rightarrow> if \<not> ok r then Inl (api_error rt r) else response_json r)"
  have cli: "create_lightning_invoice rt args (c, w) =
      (case R1 of Inl e \<Rightarrow> (Inl e, c0, w1)
       | Inr txn \<Rightarrow> (case member txn ''txnId'' of Inl e \<Rightarrow> (Inl e, c0, w1)
           | Inr txnId \<Rightarrow> (case to_string rt txnId of Inl e \<Rightarrow> (Inl e, c0, w1)
               | Inr tid \<Rightarrow>
                  (case request rt ''PUT'' (''/api/v2/transaction/'' @ tid @ ''/confirm'') Undefined (c0, w1) of
                     (r, s) \<Rightarrow> (case r of Inl e \<Rightarrow> (Inl e, s)
                        | Inr confirmed \<Rightarrow>
                           (fst (create_lightning_invoice rt args (c, w)), s))))))"
    unfolding R1_def [symmetric]
    using amount req1 [folded R1_def]
    by (simp add: create_lightning_invoice_def createTransaction_def confirmTransaction_def
        io_defs split: sum.splits prod.splits)
  show ?thesis
  proof (cases R1)
    case (Inl e)
    then show ?thesis using cli s1 by simp
  next
    case txn: (Inr txn)
    show ?thesis
    proof (cases "member txn ''txnId''")
      case (Inl e)
      then show ?thesis using cli s1 txn by simp
    next
      case txnId: (Inr txnId)
      show ?thesis
      proof (cases "to_string rt txnId")
        case (Inl e)
        then show ?thesis using cli s1 txn txnId by simp
      next
        case tid: (Inr tid)
        obtain r c' w' where
          req2: "request rt ''PUT'' (''/api/v2/transaction/'' @ tid @ ''/confirm'') Undefined (c0, w1)
                   = (r, c', w')"
          by (cases "request rt ''PUT'' (''/api/v2/transaction/'' @ tid @ ''/confirm'') Undefined (c0, w1)")
        from request_grows [OF req2] obtain rest where "sent w' = sent w1 @ rest"
          by blast
        moreover have "snd (snd (create_lightning_invoice rt args (c, w))) = w'"
        proof (cases r)
          case (Inl e)
          then show ?thesis using cli txn txnId tid req2 by simp
        next
          case (Inr confirmed)
          then have "create_lightning_invoice rt args (c, w) =
              (fst (create_lightning_invoice rt args (c, w)), c', w')"
            using cli txn txnId tid req2 by simp
          then show ?thesis by (metis snd_conv)
        qed
        ultimately show ?thesis using s1 by simp
      qed
    qed
  qed
qed

lemma lightning_put_sent:
  assumes amount: "btcAmount rt (get_prop args ''amountSats'') (get_prop args ''amountBtc'') = Inr btc"
    and ea: "ensureAuthenticated rt (c, w) = (Inr a0, c0, w0)"
    and tok: "to_string rt (accessToken c0) = Inr tok0"
    and f1: "fetch (api_request c0 tok0 ''POST'' ''/api/v2/transaction''
                (lightning_invoice_request (get_prop args ''extRefId'') btc)) w0 = (Inr r1, w1)"
    and r1: "ok r1" "json r1 = Some txn"
    and txnId: "member txn ''txnId'' = Inr txnId" "to_string rt txnId = Inr tid"
    and ea1: "ensureAuthenticated rt (c0, w1) = (Inr a1, c1, w2)"
    and tok1: "to_string rt (accessToken c1) = Inr tok1"
  shows "sent (snd (snd (create_lightning_invoice rt args (c, w)))) =
      sent w2 @ [api_request c1 tok1 ''PUT'' (''/api/v2/transaction/'' @ tid @ ''/confirm'')
                   Undefined]"
proof -
  let ?put = "api_request c1 tok1 ''PUT'' (''/api/v2/transaction/'' @ tid @ ''/confirm'') Undefined"
  have req1: "request rt ''POST'' ''/api/v2/transaction''
      (lightning_invoice_request (get_prop args ''extRefId'') btc) (c, w) = (Inr txn, c0, w1)"
    using request_forward [OF ea tok f1] r1 by (simp add: response_json_def)
  obtain o2 w3 where f2: "fetch ?put w2 = (o2, w3)"
    by (cases "fetch ?put w2")
  note req2 = request_forward [OF ea1 tok1 f2]
  have "snd (snd (create_lightning_invoice rt args (c, w))) = w3"
    using amount req1 txnId req2
    by (simp add: create_lightning_invoice_def createTransaction_def confirmTransaction_def
        io_defs split: sum.splits)
  then show ?thesis
    using fetch_effect [OF f2] by simp
qed

lemma lightning_result:
  assumes amount: "btcAmount rt (get_prop args ''amountSats'') (get_prop args ''amountBtc'') = Inr btc"
    and ea: "ensureAuthenticated rt (c, w) = (Inr a0, c0, w0)"
    and tok: "to_string rt (accessToken c0) = Inr tok0"
    and f1: "fetch (api_request c0 tok0 ''POST'' ''/api/v2/transaction''
                (lightning_invoice_request (get_prop args ''extRefId'') btc)) w0 = (Inr r1, w1)"
    and r1: "ok r1" "json r1 = Some txn"
    and txnId: "member txn ''txnId'' = Inr txnId" "to_string rt txnId = Inr tid"
    and ea1: "ensureAuthenticated rt (c0, w1) = (Inr a1, c1, w2)"
    and tok1: "to_string rt (accessToken c1) = Inr tok1"
    and f2: "fetch (api_request c1 tok1 ''PUT'' (''/api/v2/transaction/'' @ tid @ ''/confirm'')
                Undefined) w2 = (Inr r2, w3)"
    and r2: "ok r2" "json r2 = Some confirmed"
    and confirmed: "confirmed \<noteq> Null" "confirmed \<noteq> Undefined"
    and sats: "reported_amountSats rt btc = Inr sats"
  shows "create_lightning_invoice rt args (c, w) =
     (Inr (Obj [(''success'', Bool True),
                (''txnId'', get_field confirmed ''txnId''),
                (''invoice'', member_opt (member_opt (get_field confirmed ''sourceReq'')
                                ''reqDetails'') ''paymentRequest''),
                (''qrPageUrl'', member_opt (member_opt (get_field confirmed ''sourceReq'')
                                  ''reqDetails'') ''invoicePageUrl''),
                (''amountBtc'', btc),
                (''amountSats'', sats),
                (''memo'', js_or (get_prop args ''memo'') Null),
                (''status'', get_field confirmed ''txnState''),
                (''message'', Str ''Lightning invoice created and confirmed. Share the invoice string or QR page URL to receive payment.'')]),
      c1, w3)"
proof -
  have req1: "request rt ''POST'' ''/api/v2/transaction''
      (lightning_invoice_request (get_prop args ''extRefId'') btc) (c, w) = (Inr txn, c0, w1)"
    using request_forward [OF ea tok f1] r1 by (simp add: response_json_def)
  have req2: "request rt ''PUT'' (''/api/v2/transaction/'' @ tid @ ''/confirm'') Undefined (c0, w1)
      = (Inr confirmed, c1, w3)"
    using request_forward [OF ea1 tok1 f2] r2 by (simp add: response_json_def)
  note m = member_not_nullish [OF confirmed]
  show ?thesis
    using amount req1 txnId req2 sats
    by (simp add: create_lightning_invoice_def createTransaction_def confirmTransaction_def
        io_defs m)
qed

lemma post_request_record:
  "api_request c0 tok0 ''POST'' ''/api/v2/transaction'' (lightning_invoice_request extRefId btc) =
     \<lparr>url = apiUrl (config c0) @ ''/api/v2/transaction'', http_method = ''POST'',
      headers = [(''Authorization'', ''Bearer '' @ tok0), (''Content-Type'', ''application/json'')],
      body = Some (to_json (lightning_invoice_request extRefId btc))\<rparr>"
  by (simp add: api_request_def lightning_invoice_request_def)

lemma put_request_record:
  "api_request c1 tok1 ''PUT'' (''/api/v2/transaction/'' @ tid @ ''/confirm'') Undefined =
     \<lparr>url = apiUrl (config c1) @ ''/api/v2/transaction/'' @ tid @ ''/confirm'', http_method = ''PUT'',
      headers = [(''Authorization'', ''Bearer '' @ tok1)], body = None\<rparr>"
  by (simp add: api_request_def)

lemma get_prop_set_prop:
  "get_prop (set_prop ps k x) k' = (if k' = k then x else get_prop ps k')"
  by (induction ps) (auto simp add: get_prop_def)

lemma get_prop_filter:
  "get_prop (filter (\<lambda>(k, x). k \<noteq> k0) ps) k' = (if k' = k0 then Undefined else get_prop ps k')"
  by (induction ps) (auto simp add: get_prop_def)

lemma btc_5000:
  "num_div (Finite 5000) 100000000 = Finite (7378697629483821 / 147573952589676412928)"
proof -
  have "round_binary64 (5000 / 100000000)
          = Finite (of_int 7378697629483821 * power_int 2 (- 15 - 52))"
    by (rule round_binary64_eval)
      (simp_all add: round_ties_even_def Let_def floor_rat_divide_numeral power_int_minus)
  then show ?thesis
    by (simp add: power_int_minus field_simps)
qed

lemma sats_5000:
  "reported_amountSats rt (Num (Finite (7378697629483821 / 147573952589676412928)))
     = Inr (Num (Finite 5000))"
  using sats_round_trip [of 5000] btc_5000
  by (simp add: reported_amountSats_def del: num_div.simps num_mul.simps)

text \<open>
  Claim C5 (sequencing of the Lightning shortcut). An amount is valid when \<open>amountSats\<close>
  is defined and converts to a number \<open>n\<close>, the BTC amount being \<open>n / 100,000,000\<close>, or
  when \<open>amountSats\<close> is undefined and \<open>amountBtc\<close> is defined, the BTC amount being
  \<open>amountBtc\<close>. The request the handler builds has a \<open>sourceReq\<close> with currency BTC,
  method \<^verbatim>\<open>lightning\<close>, no \<open>amtRequested\<close> and empty \<open>reqDetails\<close>, and a \<open>destReq\<close> with
  currency BTC, method \<^verbatim>\<open>neutronpay\<close> and the BTC amount as \<open>amtRequested\<close>. For every
  invocation with a valid amount on a client whose session is established (cached, or
  obtained by the handshake):

    \<^item> the request is POSTed to \<^verbatim>\<open>/api/v2/transaction\<close> as the first request after the
      session is there;
    \<^item> if the POST is answered with a transaction \<open>txn\<close>, then \<open>txn.txnId\<close> is confirmed
      by a PUT to \<^verbatim>\<open>/api/v2/transaction/<txnId>/confirm\<close>, which is the last request of
      the call, with nothing between the POST and the PUT but, possibly, the session
      handshake;
    \<^item> if the PUT is answered with a confirmed transaction, the call returns the result
      with the invoice string and the QR-page URL of the confirmed transaction's
      \<open>sourceReq.reqDetails\<close>, its \<open>txnId\<close> and state, and the BTC amount.

  Conversely, every invocation that returns a result had a valid amount and has run in
  that way: POST answered with \<open>txn\<close>, PUT for \<open>txn.txnId\<close> answered with the confirmed
  transaction, nothing else sent but the handshake, and the result made of the
  confirmed transaction's fields.
\<close>

theorem lightning_shortcut_sequencing:
  fixes rt :: runtime and args :: "(string \<times> jsval) list" and c :: NeutronClient and w :: world
  defines "amountSats \<equiv> get_prop args ''amountSats''"
  defines "amountBtc \<equiv> get_prop args ''amountBtc''"
  defines "valid_amount \<equiv> (\<lambda>btc.
      (amountSats \<noteq> Undefined
        \<and> (\<exists>n. to_number rt amountSats = Inr n \<and> btc = Num (num_div n 100000000)))
    \<or> (amountSats = Undefined \<and> amountBtc \<noteq> Undefined \<and> btc = amountBtc))"
  defines "intent \<equiv> lightning_invoice_request (get_prop args ''extRefId'')"
  defines "post_request \<equiv> (\<lambda>cl tok btc.
      \<lparr>url = apiUrl (config cl) @ ''/api/v2/transaction'', http_method = ''POST'',
       headers = [(''Authorization'', ''Bearer '' @ tok), (''Content-Type'', ''application/json'')],
       body = Some (to_json (intent btc))\<rparr>)"
  defines "put_request \<equiv> (\<lambda>cl tok tid.
      \<lparr>url = apiUrl (config cl) @ ''/api/v2/transaction/'' @ tid @ ''/confirm'',
       http_method = ''PUT'',
       headers = [(''Authorization'', ''Bearer '' @ tok)], body = None\<rparr>)"
  defines "final \<equiv> create_lightning_invoice rt args (c, w)"
  shows
  "get_field (intent btc) ''sourceReq'' =
      Obj [(''ccy'', Str ''BTC''), (''method'', Str ''lightning''), (''reqDetails'', Obj [])]
 \<and> get_field (intent btc) ''destReq'' =
      Obj [(''ccy'', Str ''BTC''), (''method'', Str ''neutronpay''), (''amtRequested'', btc),
           (''reqDetails'', Obj [])]
 \<and> (valid_amount btc
      \<and> ensureAuthenticated rt (c, w) = (Inr a0, c0, w0)
      \<and> to_string rt (accessToken c0) = Inr tok0 \<longrightarrow>
      (\<exists>rest. sent (snd (snd final)) = sent w0 @ [post_request c0 tok0 btc] @ rest)
    \<and> (fetch (post_request c0 tok0 btc) w0 = (Inr r1, w1) \<and> ok r1 \<and> json r1 = Some txn
        \<and> member txn ''txnId'' = Inr txnId \<and> to_string rt txnId = Inr tid
        \<and> ensureAuthenticated rt (c0, w1) = (Inr a1, c1, w2)
        \<and> to_string rt (accessToken c1) = Inr tok1 \<longrightarrow>
        (\<exists>mid. set mid \<subseteq> {auth_request rt c}
           \<and> sent (snd (snd final)) =
               sent w0 @ [post_request c0 tok0 btc] @ mid @ [put_request c1 tok1 tid])
      \<and> (fetch (put_request c1 tok1 tid) w2 = (Inr r2, w3) \<and> ok r2 \<and> json r2 = Some confirmed
          \<and> confirmed \<noteq> Null \<and> confirmed \<noteq> Undefined
          \<and> to_number rt btc = Inr m \<longrightarrow>
          final =
            (Inr (Obj [(''success'', Bool True),
                       (''txnId'', get_field confirmed ''txnId''),
                       (''invoice'', member_opt (member_opt (get_field confirmed ''sourceReq'')
                                       ''reqDetails'') ''paymentRequest''),
                       (''qrPageUrl'', member_opt (member_opt (get_field confirmed ''sourceReq'')
                                         ''reqDetails'') ''invoicePageUrl''),
                       (''amountBtc'', btc),
                       (''amountSats'', Num (math_round (num_mul m 100000000))),
                       (''memo'', js_or (get_prop args ''memo'') Null),
                       (''status'', get_field confirmed ''txnState''),
                       (''message'', Str ''Lightning invoice created and confirmed. Share the invoice string or QR page URL to receive payment.'')]),
             c1, w3))))
 \<and> (final = (Inr result, c', w') \<longrightarrow>
      (\<exists>amount tok r elapsed txn txnId tid tok' r' elapsed' confirmed pre mid.
          valid_amount amount
        \<and> remote w (sent w @ pre) (post_request c tok amount) = (Inr r, elapsed)
        \<and> ok r \<and> json r = Some txn
        \<and> member txn ''txnId'' = Inr txnId \<and> to_string rt txnId = Inr tid
        \<and> remote w (sent w @ pre @ [post_request c tok amount] @ mid) (put_request c tok' tid)
            = (Inr r', elapsed')
        \<and> ok r' \<and> json r' = Some confirmed
        \<and> sent w' = sent w @ pre @ [post_request c tok amount] @ mid @ [put_request c tok' tid]
        \<and> set pre \<subseteq> {auth_request rt c} \<and> set mid \<subseteq> {auth_request rt c}
        \<and> get_field result ''invoice'' =
            member_opt (member_opt (get_field confirmed ''sourceReq'') ''reqDetails'')
              ''paymentRequest''
        \<and> get_field result ''qrPageUrl'' =
            member_opt (member_opt (get_field confirmed ''sourceReq'') ''reqDetails'')
              ''invoicePageUrl''
        \<and> get_field result ''txnId'' = get_field confirmed ''txnId''
        \<and> get_field result ''status'' = get_field confirmed ''txnState''
        \<and> get_field result ''amountBtc'' = amount))"
proof -
  have valid: "btcAmount rt (get_prop args ''amountSats'') (get_prop args ''amountBtc'') = Inr x
      \<longleftrightarrow> valid_amount x" for x
    unfolding valid_amount_def amountSats_def amountBtc_def
    by (auto simp add: btcAmount_def split: sum.splits)
  have post: "api_request cl tok ''POST'' ''/api/v2/transaction'' (intent x) = post_request cl tok x"
    for cl tok x
    unfolding post_request_def intent_def by (rule post_request_record)
  have put: "api_request cl tok ''PUT'' (''/api/v2/transaction/'' @ t @ ''/confirm'') Undefined
      = put_request cl tok t" for cl tok t
    unfolding put_request_def by (rule put_request_record)
  have shape: "get_field (intent btc) ''sourceReq'' =
      Obj [(''ccy'', Str ''BTC''), (''method'', Str ''lightning''), (''reqDetails'', Obj [])]"
    "get_field (intent btc) ''destReq'' =
      Obj [(''ccy'', Str ''BTC''), (''method'', Str ''neutronpay''), (''amtRequested'', btc),
           (''reqDetails'', Obj [])]"
    by (simp_all add: intent_def lightning_invoice_request_def get_prop_def)
  have forward: "(\<exists>rest. sent (snd (snd final)) = sent w0 @ [post_request c0 tok0 btc] @ rest)
    \<and> (fetch (post_request c0 tok0 btc) w0 = (Inr r1, w1) \<and> ok r1 \<and> json r1 = Some txn
        \<and> member txn ''txnId'' = Inr txnId \<and> to_string rt txnId = Inr tid
        \<and> ensureAuthenticated rt (c0, w1) = (Inr a1, c1, w2)
        \<and> to_string rt (accessToken c1) = Inr tok1 \<longrightarrow>
        (\<exists>mid. set mid \<subseteq> {auth_request rt c}
           \<and> sent (snd (snd final)) =
               sent w0 @ [post_request c0 tok0 btc] @ mid @ [put_request c1 tok1 tid])
      \<and> (fetch (put_request c1 tok1 tid) w2 = (Inr r2, w3) \<and> ok r2 \<and> json r2 = Some confirmed
          \<and> confirmed \<noteq> Null \<and> confirmed \<noteq> Undefined
          \<and> to_number rt btc = Inr m \<longrightarrow>
          final =
            (Inr (Obj [(''success'', Bool True),
                       (''txnId'', get_field confirmed ''txnId''),
                       (''invoice'', member_opt (member_opt (get_field confirmed ''sourceReq'')
                                       ''reqDetails'') ''paymentRequest''),
                       (''qrPageUrl'', member_opt (member_opt (get_field confirmed ''sourceReq'')
                                         ''reqDetails'') ''invoicePageUrl''),
                       (''amountBtc'', btc),
                       (''amountSats'', Num (math_round (num_mul m 100000000))),
                       (''memo'', js_or (get_prop args ''memo'') Null),
                       (''status'', get_field confirmed ''txnState''),
                       (''message'', Str ''Lightning invoice created and confirmed. Share the invoice string or QR page URL to receive payment.'')]),
             c1, w3)))"
    if v: "valid_amount btc"
      and ea: "ensureAuthenticated rt (c, w) = (Inr a0, c0, w0)"
      and tok: "to_string rt (accessToken c0) = Inr tok0"
  proof (intro conjI impI; (elim conjE)?)
    note amount = v [folded valid]
    show "\<exists>rest. sent (snd (snd final)) = sent w0 @ [post_request c0 tok0 btc] @ rest"
      using lightning_post_sent [OF amount ea tok] unfolding final_def intent_def [symmetric] post .
    assume f1: "fetch (post_request c0 tok0 btc) w0 = (Inr r1, w1)"
      and r1: "ok r1" "json r1 = Some txn"
      and txnId: "member txn ''txnId'' = Inr txnId" "to_string rt txnId = Inr tid"
      and ea1: "ensureAuthenticated rt (c0, w1) = (Inr a1, c1, w2)"
      and tok1: "to_string rt (accessToken c1) = Inr tok1"
    note f1' = f1 [folded post, unfolded intent_def]
    have s1: "sent w1 = sent w0 @ [post_request c0 tok0 btc]"
      using fetch_effect [OF f1] by simp
    have "config c0 = config c"
      using ensureAuthenticated_sent [OF ea] by simp
    then have "auth_request rt c0 = auth_request rt c"
      by (rule auth_request_config)
    with ensureAuthenticated_sent [OF ea1] obtain mid where
      mid: "sent w2 = sent w1 @ mid" "set mid \<subseteq> {auth_request rt c}"
      by (metis append_Nil2 empty_set empty_subsetI list.simps(15) subset_refl)
    have "sent (snd (snd final)) = sent w2 @ [put_request c1 tok1 tid]"
      using lightning_put_sent [OF amount ea tok f1' r1 txnId ea1 tok1]
      unfolding final_def put .
    then show "\<exists>mid. set mid \<subseteq> {auth_request rt c}
           \<and> sent (snd (snd final)) =
               sent w0 @ [post_request c0 tok0 btc] @ mid @ [put_request c1 tok1 tid]"
      using mid s1 by auto
    assume f2: "fetch (put_request c1 tok1 tid) w2 = (Inr r2, w3)"
      and r2: "ok r2" "json r2 = Some confirmed"
      and confirmed: "confirmed \<noteq> Null" "confirmed \<noteq> Undefined"
      and m: "to_number rt btc = Inr m"
    have sats: "reported_amountSats rt btc = Inr (Num (math_round (num_mul m 100000000)))"
      using m by (simp add: reported_amountSats_def)
    show "final =
            (Inr (Obj [(''success'', Bool True),
                       (''txnId'', get_field confirmed ''txnId''),
                       (''invoice'', member_opt (member_opt (get_field confirmed ''sourceReq'')
                                       ''reqDetails'') ''paymentRequest''),
                       (''qrPageUrl'', member_opt (member_opt (get_field confirmed ''sourceReq'')
                                         ''reqDetails'') ''invoicePageUrl''),
                       (''amountBtc'', btc),
                       (''amountSats'', Num (math_round (num_mul m 100000000))),
                       (''memo'', js_or (get_prop args ''memo'') Null),
                       (''status'', get_field confirmed ''txnState''),
                       (''message'', Str ''Lightning invoice created and confirmed. Share the invoice string or QR page URL to receive payment.'')]),
             c1, w3)"
      unfolding final_def
      by (rule lightning_result [OF amount ea tok f1' r1 txnId ea1 tok1
            f2 [folded put] r2 confirmed sats])
  qed
  have backward: "\<exists>amount tok r elapsed txn txnId tid tok' r' elapsed' confirmed pre mid.
          valid_amount amount
        \<and> remote w (sent w @ pre) (post_request c tok amount) = (Inr r, elapsed)
        \<and> ok r \<and> json r = Some txn
        \<and> member txn ''txnId'' = Inr txnId \<and> to_string rt txnId = Inr tid
        \<and> remote w (sent w @ pre @ [post_request c tok amount] @ mid) (put_request c tok' tid)
            = (Inr r', elapsed')
        \<and> ok r' \<and> json r' = Some confirmed
        \<and> sent w' = sent w @ pre @ [post_request c tok amount] @ mid @ [put_request c tok' tid]
        \<and> set pre \<subseteq> {auth_request rt c} \<and> set mid \<subseteq> {auth_request rt c}
        \<and> get_field result ''invoice'' =
            member_opt (member_opt (get_field confirmed ''sourceReq'') ''reqDetails'')
              ''paymentRequest''
        \<and> get_field result ''qrPageUrl'' =
            member_opt (member_opt (get_field confirmed ''sourceReq'') ''reqDetails'')
              ''invoicePageUrl''
        \<and> get_field result ''txnId'' = get_field confirmed ''txnId''
        \<and> get_field result ''status'' = get_field confirmed ''txnState''
        \<and> get_field result ''amountBtc'' = amount"
    if "final = (Inr result, c', w')"
    using create_lightning_invoice_returned [OF that [unfolded final_def]]
    unfolding valid post_request_def put_request_def intent_def
    by blast
  show ?thesis
    using shape forward backward by blast
qed

theorem lightning_shortcut_sequencing_witness:
  "create_lightning_invoice example_runtime [(''amountSats'', Num (Finite 5000))]
     (example_client, example_world) =
   (Inr example_invoice_result, example_client,
    example_world\<lparr>now := 1010, sent := [example_post_request, example_put_request]\<rparr>)
   \<and> (\<exists>amount confirmed.
        get_field example_invoice_result ''amountBtc'' = amount
      \<and> get_field example_invoice_result ''invoice'' =
          member_opt (member_opt (get_field confirmed ''sourceReq'') ''reqDetails'')
            ''paymentRequest'')"
proof -
  let ?args = "[(''amountSats'', Num (Finite 5000))]"
  let ?x = "7378697629483821 / 147573952589676412928 :: rat"
  let ?txn = "Obj [(''txnId'', Str ''txn-1''), (''txnState'', Str ''quoted'')]"
  let ?r1 = "\<lparr>status = 200, statusText = ''OK'', json = Some ?txn\<rparr>"
  let ?r2 = "\<lparr>status = 200, statusText = ''OK'', json = Some example_confirmed\<rparr>"
  let ?w1 = "example_world\<lparr>now := 1005, sent := [example_post_request]\<rparr>"
  let ?w3 = "example_world\<lparr>now := 1010, sent := [example_post_request, example_put_request]\<rparr>"
  have post: "\<lparr>url = apiUrl (config example_client) @ ''/api/v2/transaction'', http_method = ''POST'',
       headers = [(''Authorization'', ''Bearer '' @ ''tok-1''), (''Content-Type'', ''application/json'')],
       body = Some (to_json (lightning_invoice_request (get_prop ?args ''extRefId'') example_btc))\<rparr>
     = example_post_request"
    by (simp add: example_client_def example_post_request_def lightning_invoice_request_def
        get_prop_def example_btc_def)
  have put: "\<lparr>url = apiUrl (config example_client) @ ''/api/v2/transaction/'' @ ''txn-1'' @ ''/confirm'',
       http_method = ''PUT'',
       headers = [(''Authorization'', ''Bearer '' @ ''tok-1'')], body = None\<rparr>
     = example_put_request"
    by (simp add: example_client_def example_put_request_def)
  have valid: "get_prop ?args ''amountSats'' \<noteq> Undefined
      \<and> (\<exists>n. to_number example_runtime (get_prop ?args ''amountSats'') = Inr n
            \<and> example_btc = Num (num_div n 100000000))"
    using btc_5000 by (simp add: get_prop_def example_btc_def del: num_div.simps)
  have ea: "ensureAuthenticated example_runtime (example_client, example_world)
      = (Inr (cachedAuthResponse example_client), example_client, example_world)"
    by (rule ensureAuthenticated_cached [OF example_client_authenticated])
  have tok: "to_string example_runtime (accessToken example_client) = Inr ''tok-1''"
    by (simp add: example_client_def)
  have f1: "fetch example_post_request example_world = (Inr ?r1, ?w1)"
    by (simp add: fetch_def example_world_def example_remote_def example_post_request_def)
  have r1: "ok ?r1" "json ?r1 = Some ?txn" "member ?txn ''txnId'' = Inr (Str ''txn-1'')"
    "to_string example_runtime (Str ''txn-1'') = Inr ''txn-1''"
    by (simp_all add: ok_def get_prop_def)
  have "authenticated example_client ?w1"
    by (simp add: authenticated_def example_client_def example_world_def)
  then have ea1: "ensureAuthenticated example_runtime (example_client, ?w1)
      = (Inr (cachedAuthResponse example_client), example_client, ?w1)"
    by (rule ensureAuthenticated_cached)
  have f2: "fetch example_put_request ?w1 = (Inr ?r2, ?w3)"
    by (simp add: fetch_def example_world_def example_remote_def example_put_request_def)
  have r2: "ok ?r2" "json ?r2 = Some example_confirmed"
    "example_confirmed \<noteq> Null" "example_confirmed \<noteq> Undefined"
    by (simp_all add: ok_def example_confirmed_def)
  have m: "to_number example_runtime example_btc = Inr (Finite ?x)"
    by (simp add: example_btc_def)
  have sats: "Num (math_round (num_mul (Finite ?x) 100000000)) = Num (Finite 5000)"
    using sats_5000 [of example_runtime]
    by (simp add: reported_amountSats_def del: num_mul.simps math_round.simps)
  have result: "Obj [(''success'', Bool True),
         (''txnId'', get_field example_confirmed ''txnId''),
         (''invoice'', member_opt (member_opt (get_field example_confirmed ''sourceReq'')
                         ''reqDetails'') ''paymentRequest''),
         (''qrPageUrl'', member_opt (member_opt (get_field example_confirmed ''sourceReq'')
                           ''reqDetails'') ''invoicePageUrl''),
         (''amountBtc'', example_btc),
         (''amountSats'', Num (Finite 5000)),
         (''memo'', js_or (get_prop ?args ''memo'') Null),
         (''status'', get_field example_confirmed ''txnState''),
         (''message'', Str ''Lightning invoice created and confirmed. Share the invoice string or QR page URL to receive payment.'')]
      = example_invoice_result"
    by (simp add: example_invoice_result_def example_confirmed_def get_prop_def js_or_def)
  note run = lightning_shortcut_sequencing
    [where rt = example_runtime and args = ?args and c = example_client and w = example_world
       and btc = example_btc and ?a0.0 = "cachedAuthResponse example_client"
       and ?c0.0 = example_client and ?w0.0 = example_world and ?tok0.0 = "''tok-1''"
       and ?r1.0 = ?r1 and ?w1.0 = ?w1 and txn = ?txn and txnId = "Str ''txn-1''"
       and tid = "''txn-1''" and ?a1.0 = "cachedAuthResponse example_client"
       and ?c1.0 = example_client and ?w2.0 = ?w1 and ?tok1.0 = "''tok-1''"
       and ?r2.0 = ?r2 and ?w3.0 = ?w3 and confirmed = example_confirmed
       and m = "Finite ?x" and result = example_invoice_result and c' = example_client
       and w' = ?w3, unfolded post put sats result]
  have final: "create_lightning_invoice example_runtime ?args (example_client, example_world) =
     (Inr example_invoice_result, example_client, ?w3)"
    using run valid ea tok f1 r1 ea1 f2 r2 m by blast
  then have "\<exists>amount confirmed.
        get_field example_invoice_result ''amountBtc'' = amount
      \<and> get_field example_invoice_result ''invoice'' =
          member_opt (member_opt (get_field confirmed ''sourceReq'') ''reqDetails'')
            ''paymentRequest''"
    using run by blast
  with final show ?thesis
    by simp
qed

text \<open>
  Claim C10 (precedence of the satoshi input). In the create-receive-invoice tool, when
  \<open>amountSats\<close> is defined (and converts to a number \<open>n\<close>) the request the handler POSTs
  on an established session is the intent built with the BTC amount \<open>n / 100,000,000\<close>,
  whatever \<open>amountBtc\<close> is: the whole call runs as if \<open>amountBtc\<close> had not been given.
  The intent is built with \<open>amountBtc\<close> only when \<open>amountSats\<close> is undefined and
  \<open>amountBtc\<close> is defined; when both are undefined nothing is sent and the call fails.
  The BTC amount the intent is built with is its \<open>destReq.amtRequested\<close>, in the intent
  and in the JSON body sent.
\<close>

theorem satoshi_input_precedence:
  fixes rt :: runtime and args :: "(string \<times> jsval) list" and c :: NeutronClient and w :: world
  defines "amountSats \<equiv> get_prop args ''amountSats''"
  defines "amountBtc \<equiv> get_prop args ''amountBtc''"
  defines "intent \<equiv> lightning_invoice_request (get_prop args ''extRefId'')"
  defines "post_request \<equiv> (\<lambda>cl tok btc.
      \<lparr>url = apiUrl (config cl) @ ''/api/v2/transaction'', http_method = ''POST'',
       headers = [(''Authorization'', ''Bearer '' @ tok), (''Content-Type'', ''application/json'')],
       body = Some (to_json (intent btc))\<rparr>)"
  defines "final \<equiv> create_lightning_invoice rt args (c, w)"
  shows
  "(amountSats \<noteq> Undefined \<and> to_number rt amountSats = Inr n
      \<and> ensureAuthenticated rt (c, w) = (Inr a0, c0, w0)
      \<and> to_string rt (accessToken c0) = Inr tok0 \<longrightarrow>
      (\<exists>rest. sent (snd (snd final)) =
         sent w0 @ [post_request c0 tok0 (Num (num_div n 100000000))] @ rest))
 \<and> (amountSats = Undefined \<and> amountBtc \<noteq> Undefined
      \<and> ensureAuthenticated rt (c, w) = (Inr a0, c0, w0)
      \<and> to_string rt (accessToken c0) = Inr tok0 \<longrightarrow>
      (\<exists>rest. sent (snd (snd final)) = sent w0 @ [post_request c0 tok0 amountBtc] @ rest))
 \<and> (amountSats = Undefined \<and> amountBtc = Undefined \<longrightarrow>
      final = (Inl (Error ''Provide either amountSats or amountBtc''), c, w))
 \<and> get_field (get_field (intent btc) ''destReq'') ''amtRequested'' = btc
 \<and> get_field (get_field (to_json (intent btc)) ''destReq'') ''amtRequested'' = to_json btc
 \<and> (amountSats \<noteq> Undefined \<longrightarrow>
      create_lightning_invoice rt (set_prop args ''amountBtc'' v)
        = create_lightning_invoice rt (filter (\<lambda>(k, x). k \<noteq> ''amountBtc'') args))
 \<and> (s \<noteq> Undefined \<longrightarrow>
      btcAmount rt s b =
        (case to_number rt s of
           Inl e \<Rightarrow> Inl e
         | Inr n \<Rightarrow> Inr (Num (num_div n 100000000))))
 \<and> (s = Undefined \<and> b \<noteq> Undefined \<longrightarrow> btcAmount rt s b = Inr b)"
proof -
  have post: "api_request cl tok ''POST'' ''/api/v2/transaction'' (intent x) = post_request cl tok x"
    for cl tok x
    unfolding post_request_def intent_def by (rule post_request_record)
  have posted: "\<exists>rest. sent (snd (snd final)) = sent w0 @ [post_request c0 tok0 x] @ rest"
    if "btcAmount rt amountSats amountBtc = Inr x"
      "ensureAuthenticated rt (c, w) = (Inr a0, c0, w0)"
      "to_string rt (accessToken c0) = Inr tok0" for x
    using lightning_post_sent [OF that(1) [unfolded amountSats_def amountBtc_def] that(2,3)]
    unfolding final_def intent_def [symmetric] post .
  have 1: "\<exists>rest. sent (snd (snd final)) =
         sent w0 @ [post_request c0 tok0 (Num (num_div n 100000000))] @ rest"
    if "amountSats \<noteq> Undefined" "to_number rt amountSats = Inr n"
      "ensureAuthenticated rt (c, w) = (Inr a0, c0, w0)"
      "to_string rt (accessToken c0) = Inr tok0"
  proof (rule posted [OF _ that(3,4)])
    show "btcAmount rt amountSats amountBtc = Inr (Num (num_div n 100000000))"
      using that(1,2) by (simp add: btcAmount_def del: num_div.simps)
  qed
  have 2: "\<exists>rest. sent (snd (snd final)) = sent w0 @ [post_request c0 tok0 amountBtc] @ rest"
    if "amountSats = Undefined" "amountBtc \<noteq> Undefined"
      "ensureAuthenticated rt (c, w) = (Inr a0, c0, w0)"
      "to_string rt (accessToken c0) = Inr tok0"
  proof (rule posted [OF _ that(3,4)])
    show "btcAmount rt amountSats amountBtc = Inr amountBtc"
      using that(1,2) by (simp add: btcAmount_def)
  qed
  have 3: "final = (Inl (Error ''Provide either amountSats or amountBtc''), c, w)"
    if "amountSats = Undefined" "amountBtc = Undefined"
    using that unfolding final_def amountSats_def amountBtc_def
    by (simp add: create_lightning_invoice_def btcAmount_def io_defs)
  have 4: "get_field (get_field (intent btc) ''destReq'') ''amtRequested'' = btc"
    "get_field (get_field (to_json (intent btc)) ''destReq'') ''amtRequested'' = to_json btc"
    by (simp_all add: intent_def lightning_invoice_request_def get_prop_def)
  have 5: "create_lightning_invoice rt (set_prop args ''amountBtc'' v)
        = create_lightning_invoice rt (filter (\<lambda>(k, x). k \<noteq> ''amountBtc'') args)"
    if "amountSats \<noteq> Undefined"
    using that unfolding amountSats_def
    by (simp add: create_lightning_invoice_def get_prop_set_prop get_prop_filter btcAmount_def)
  have 6: "s \<noteq> Undefined \<longrightarrow>
      btcAmount rt s b =
        (case to_number rt s of
           Inl e \<Rightarrow> Inl e
         | Inr n \<Rightarrow> Inr (Num (num_div n 100000000)))"
    "s = Undefined \<and> b \<noteq> Undefined \<longrightarrow> btcAmount rt s b = Inr b"
    by (simp_all add: btcAmount_def)
  show ?thesis
    using 1 2 3 4 5 6 by blast
qed

theorem satoshi_input_precedence_witness:
  "(\<exists>rest. sent (snd (snd (create_lightning_invoice example_runtime
        [(''amountSats'', Num (Finite 5000)), (''amountBtc'', Num (Finite 1))]
        (example_client, example_world)))) = example_post_request # rest)
   \<and> (\<exists>rest. sent (snd (snd (create_lightning_invoice example_runtime
        [(''amountBtc'', Num (Finite 1))] (example_client, example_world)))) =
        \<lparr>url = ''https://api.neutron.me/api/v2/transaction'', http_method = ''POST'',
         headers = [(''Authorization'', ''Bearer tok-1''), (''Content-Type'', ''application/json'')],
         body = Some (Obj [(''sourceReq'', Obj [(''ccy'', Str ''BTC''), (''method'', Str ''lightning''),
                                                (''reqDetails'', Obj [])]),
                           (''destReq'', Obj [(''ccy'', Str ''BTC''), (''method'', Str ''neutronpay''),
                                              (''amtRequested'', Num (Finite 1)),
                                              (''reqDetails'', Obj [])])])\<rparr> # rest)
   \<and> create_lightning_invoice example_runtime [] (example_client, example_world)
       = (Inl (Error ''Provide either amountSats or amountBtc''), example_client, example_world)
   \<and> create_lightning_invoice example_runtime
         [(''amountSats'', Num (Finite 5000)), (''amountBtc'', Num (Finite 1))]
       = create_lightning_invoice example_runtime [(''amountSats'', Num (Finite 5000))]
   \<and> btcAmount example_runtime (Num (Finite 5000)) (Num (Finite 1))
       = Inr (Num (num_div (Finite 5000) 100000000))
   \<and> btcAmount example_runtime Undefined (Num (Finite 1)) = Inr (Num (Finite 1))"
proof -
  let ?both = "[(''amountSats'', Num (Finite 5000)), (''amountBtc'', Num (Finite 1))]"
  let ?sats = "[(''amountSats'', Num (Finite 5000))]"
  let ?btc = "[(''amountBtc'', Num (Finite 1))]"
  have ea: "ensureAuthenticated example_runtime (example_client, example_world)
      = (Inr (cachedAuthResponse example_client), example_client, example_world)"
    by (rule ensureAuthenticated_cached [OF example_client_authenticated])
  have tok: "to_string example_runtime (accessToken example_client) = Inr ''tok-1''"
    by (simp add: example_client_def)
  have empty: "sent example_world = []"
    by (simp add: example_world_def)
  have post: "\<lparr>url = apiUrl (config example_client) @ ''/api/v2/transaction'', http_method = ''POST'',
       headers = [(''Authorization'', ''Bearer '' @ ''tok-1''), (''Content-Type'', ''application/json'')],
       body = Some (to_json (lightning_invoice_request (get_prop ?both ''extRefId'')
                      (Num (num_div (Finite 5000) 100000000))))\<rparr>
     = example_post_request"
    unfolding btc_5000
    by (simp add: example_client_def example_post_request_def lightning_invoice_request_def
        get_prop_def example_btc_def)
  have both: "get_prop ?both ''amountSats'' \<noteq> Undefined"
    "to_number example_runtime (get_prop ?both ''amountSats'') = Inr (Finite 5000)"
    by (simp_all add: get_prop_def)
  have 1: "\<exists>rest. sent (snd (snd (create_lightning_invoice example_runtime ?both
        (example_client, example_world)))) = example_post_request # rest"
    using satoshi_input_precedence [where rt = example_runtime and args = ?both
        and c = example_client and w = example_world and n = "Finite 5000"
        and ?a0.0 = "cachedAuthResponse example_client" and ?c0.0 = example_client
        and ?w0.0 = example_world and ?tok0.0 = "''tok-1''", THEN conjunct1, unfolded post empty]
      both ea tok
    by simp
  have only_btc: "get_prop ?btc ''amountSats'' = Undefined"
    "get_prop ?btc ''amountBtc'' = Num (Finite 1)" "get_prop ?btc ''extRefId'' = Undefined"
    by (simp_all add: get_prop_def)
  have 2: "\<exists>rest. sent (snd (snd (create_lightning_invoice example_runtime ?btc
        (example_client, example_world)))) =
        \<lparr>url = ''https://api.neutron.me/api/v2/transaction'', http_method = ''POST'',
         headers = [(''Authorization'', ''Bearer tok-1''), (''Content-Type'', ''application/json'')],
         body = Some (Obj [(''sourceReq'', Obj [(''ccy'', Str ''BTC''), (''method'', Str ''lightning''),
                                                (''reqDetails'', Obj [])]),
                           (''destReq'', Obj [(''ccy'', Str ''BTC''), (''method'', Str ''neutronpay''),
                                              (''amtRequested'', Num (Finite 1)),
                                              (''reqDetails'', Obj [])])])\<rparr> # rest"
    using satoshi_input_precedence [where rt = example_runtime and args = ?btc
        and c = example_client and w = example_world
        and ?a0.0 = "cachedAuthResponse example_client" and ?c0.0 = example_client
        and ?w0.0 = example_world and ?tok0.0 = "''tok-1''", THEN conjunct2, THEN conjunct1,
        unfolded only_btc empty]
      ea tok
    by (simp add: lightning_invoice_request_def example_client_def)
  have 3: "create_lightning_invoice example_runtime [] (example_client, example_world)
       = (Inl (Error ''Provide either amountSats or amountBtc''), example_client, example_world)"
    using satoshi_input_precedence [where rt = example_runtime and args = "[]"
        and c = example_client and w = example_world, THEN conjunct2, THEN conjunct2,
        THEN conjunct1]
    by (simp add: get_prop_def)
  have 4: "create_lightning_invoice example_runtime ?both
       = create_lightning_invoice example_runtime ?sats"
    using satoshi_input_precedence [where rt = example_runtime and args = ?sats
        and v = "Num (Finite 1)", THEN conjunct2, THEN conjunct2, THEN conjunct2,
        THEN conjunct2, THEN conjunct2, THEN conjunct1]
    by (simp add: get_prop_def)
  have 5: "btcAmount example_runtime (Num (Finite 5000)) (Num (Finite 1))
       = Inr (Num (num_div (Finite 5000) 100000000))"
    "btcAmount example_runtime Undefined (Num (Finite 1)) = Inr (Num (Finite 1))"
    using satoshi_input_precedence [where rt = example_runtime and s = "Num (Finite 5000)"
        and b = "Num (Finite 1)", THEN conjunct2, THEN conjunct2, THEN conjunct2,
        THEN conjunct2, THEN conjunct2, THEN conjunct2]
      satoshi_input_precedence [where rt = example_runtime and s = Undefined
        and b = "Num (Finite 1)", THEN conjunct2, THEN conjunct2, THEN conjunct2,
        THEN conjunct2, THEN conjunct2, THEN conjunct2]
    by (simp_all del: num_div.simps)
  show ?thesis
    using 1 2 3 4 5 by blast
qed

section \<open>Properties of the tool-call handler\<close>

text \<open>
  Claim C8 (error propagation policy), as stated: any error of any kind raised while
  handling a tool invocation becomes a failure result with \<^verbatim>\<open>isError: true\<close> and is
  never thrown by the handler. The handler calls \<^verbatim>\<open>getClient()\<close> before its \<^verbatim>\<open>try\<close>
  block, so with a credential missing from the environment the error of
  \<^verbatim>\<open>getClient\<close> leaves the handler.
\<close>

theorem error_propagation_counterexample:
  "call_tool example_runtime Map.empty ''neutron_get_rate'' None (None, example_world)
     = (Inl (Error (''NEUTRON_API_KEY and NEUTRON_API_SECRET environment variables are required. ''
                    @ ''Get your credentials at https://neutron.me'')),
        None, example_world)"
  by (simp add: call_tool_def getClient_def)

text \<open>
  Claim C8, amended. Whenever the client is available (it exists already, or both
  credentials are set), a tool invocation always returns a result and throws nothing:
  an error of any kind raised by the dispatch on the tool name (an unknown tool name, the
  missing amount of the invoice tool, an authentication failure, an API failure or any
  other) becomes the result with \<^verbatim>\<open>isError: true\<close> and the text \<^verbatim>\<open>Error: \<close> followed by
  the error's message, and a value returned by the dispatch becomes a result that is
  not an error. Only the configuration error of \<^verbatim>\<open>getClient\<close> is thrown.
\<close>

theorem error_propagation:
  fixes arguments :: "(string \<times> jsval) list option"
  assumes "getClient env client_slot = Inr client"
  defines "args \<equiv> (case arguments of None \<Rightarrow> [] | Some a \<Rightarrow> a)"
  shows
  "(\<exists>result slot' w'. call_tool rt env name arguments (client_slot, w) = (Inr result, slot', w'))
 \<and> (\<forall>e c' w'. tool_switch rt name args (client, w) = (Inl e, c', w') \<longrightarrow>
        call_tool rt env name arguments (client_slot, w)
          = (Inr \<lparr>content_text = Plain_text (''Error: '' @ message e), isError = True\<rparr>,
             Some c', w'))
 \<and> (\<forall>r c' w'. tool_switch rt name args (client, w) = (Inr r, c', w') \<longrightarrow>
        call_tool rt env name arguments (client_slot, w)
          = (Inr \<lparr>content_text = Json_text (to_json r), isError = False\<rparr>, Some c', w'))
 \<and> (name \<notin> set tools \<longrightarrow>
        call_tool rt env name arguments (client_slot, w)
          = (Inr \<lparr>content_text = Plain_text (''Error: Unknown tool: '' @ name), isError = True\<rparr>,
             Some client, w))
 \<and> (name = ''neutron_create_lightning_invoice''
      \<and> get_prop args ''amountSats'' = Undefined \<and> get_prop args ''amountBtc'' = Undefined \<longrightarrow>
        call_tool rt env name arguments (client_slot, w)
          = (Inr \<lparr>content_text = Plain_text ''Error: Provide either amountSats or amountBtc'',
                  isError = True\<rparr>,
             Some client, w))"
proof -
  have call: "call_tool rt env name arguments (client_slot, w) =
      (case tool_switch rt name args (client, w) of
         (Inr result, client', w') \<Rightarrow>
           (Inr \<lparr>content_text = Json_text (to_json result), isError = False\<rparr>, Some client', w')
       | (Inl error, client', w') \<Rightarrow>
           (Inr \<lparr>content_text = Plain_text (''Error: '' @ message error), isError = True\<rparr>,
            Some client', w'))"
    using assms(1) unfolding args_def by (simp add: call_tool_def)
  have total: "\<exists>result slot' w'. call_tool rt env name arguments (client_slot, w) = (Inr result, slot', w')"
    unfolding call by (cases "tool_switch rt name args (client, w)") (auto split: sum.splits)
  have unknown: "tool_switch rt name args (client, w) = (Inl (Error (''Unknown tool: '' @ name)), client, w)"
    if "name \<notin> set tools"
    using that by (simp add: tool_switch_def tools_def throw_def)
  have amount: "tool_switch rt name args (client, w)
      = (Inl (Error ''Provide either amountSats or amountBtc''), client, w)"
    if "name = ''neutron_create_lightning_invoice''"
      "get_prop args ''amountSats'' = Undefined" "get_prop args ''amountBtc'' = Undefined"
    using that
    by (simp add: tool_switch_def create_lightning_invoice_def btcAmount_def io_defs)
  have c2: "call_tool rt env name arguments (client_slot, w)
          = (Inr \<lparr>content_text = Plain_text (''Error: '' @ message e), isError = True\<rparr>,
             Some c', w')"
    if "tool_switch rt name args (client, w) = (Inl e, c', w')" for e c' w'
    unfolding call that by simp
  have c3: "call_tool rt env name arguments (client_slot, w)
          = (Inr \<lparr>content_text = Json_text (to_json r), isError = False\<rparr>, Some c', w')"
    if "tool_switch rt name args (client, w) = (Inr r, c', w')" for r c' w'
    unfolding call that by simp
  have c4: "call_tool rt env name arguments (client_slot, w)
          = (Inr \<lparr>content_text = Plain_text (''Error: Unknown tool: '' @ name), isError = True\<rparr>,
             Some client, w)"
    if "name \<notin> set tools"
    using c2 [OF unknown [OF that]] by simp
  have c5: "call_tool rt env name arguments (client_slot, w)
          = (Inr \<lparr>content_text = Plain_text ''Error: Provide either amountSats or amountBtc'',
                  isError = True\<rparr>,
             Some client, w)"
    if "name = ''neutron_create_lightning_invoice''"
      "get_prop args ''amountSats'' = Undefined" "get_prop args ''amountBtc'' = Undefined"
    using c2 [OF amount [OF that]] by simp
  show ?thesis
    using total c2 c3 c4 c5 by blast
qed

lemma example_getClient: "getClient example_env None = Inr example_new_client"
  by (simp add: getClient_def example_env_def example_new_client_def)

lemma example_auth_failure:
  "tool_switch example_runtime ''neutron_get_rate'' [] (example_new_client, example_world)
     = (Inl (Error ''Authentication failed: 400 - Y''), example_new_client,
        example_world\<lparr>now := 1005, sent := [auth_request example_runtime example_new_client]\<rparr>)"
proof -
  have "decimal 400 = ''400''"
    by (simp add: decimal.simps)
  then show ?thesis
    by (simp add: tool_switch_def getRate_def request_def ensureAuthenticated_def
        authenticated_def example_new_client_def new_NeutronClient_def io_defs fetch_def
        example_world_def example_remote_def auth_request_def ok_def
        authentication_failed_def response_json_or_empty_def or_else_def get_prop_def
        example_runtime_def)
qed

lemma example_api_failure:
  "tool_switch example_runtime ''neutron_get_rate'' [] (example_client, example_world)
     = (Inl (Error ''API Error 400: X''), example_client,
        example_world\<lparr>now := 1005,
          sent := [\<lparr>url = ''https://api.neutron.me/api/v2/rate'', http_method = ''GET'',
                    headers = [(''Authorization'', ''Bearer tok-1'')], body = None\<rparr>]\<rparr>)"
proof -
  have "decimal 400 = ''400''"
    by (simp add: decimal.simps)
  then show ?thesis
    by (simp add: tool_switch_def getRate_def request_def ensureAuthenticated_def
        authenticated_def example_client_def io_defs fetch_def
        example_world_def example_remote_def ok_def
        api_error_def response_json_or_empty_def or_else_def get_prop_def
        example_runtime_def)
qed

theorem error_propagation_witness:
  "call_tool example_runtime example_env ''neutron_get_rate'' None (None, example_world)
     = (Inr \<lparr>content_text = Plain_text ''Error: Authentication failed: 400 - Y'', isError = True\<rparr>,
        Some example_new_client,
        example_world\<lparr>now := 1005, sent := [auth_request example_runtime example_new_client]\<rparr>)
   \<and> call_tool example_runtime example_env ''neutron_get_rate'' None
        (Some example_client, example_world)
     = (Inr \<lparr>content_text = Plain_text ''Error: API Error 400: X'', isError = True\<rparr>,
        Some example_client,
        example_world\<lparr>now := 1005,
          sent := [\<lparr>url = ''https://api.neutron.me/api/v2/rate'', http_method = ''GET'',
                    headers = [(''Authorization'', ''Bearer tok-1'')], body = None\<rparr>]\<rparr>)
   \<and> call_tool example_runtime example_env ''no_such_tool'' None (None, example_world)
     = (Inr \<lparr>content_text = Plain_text ''Error: Unknown tool: no_such_tool'', isError = True\<rparr>,
        Some example_new_client, example_world)
   \<and> call_tool example_runtime example_env ''neutron_create_lightning_invoice''
        (Some [(''memo'', Str ''coffee'')]) (None, example_world)
     = (Inr \<lparr>content_text = Plain_text ''Error: Provide either amountSats or amountBtc'',
             isError = True\<rparr>,
        Some example_new_client, example_world)"
proof -
  have cached: "getClient example_env (Some example_client) = Inr example_client"
    by (simp add: getClient_def)
  have 1: "call_tool example_runtime example_env ''neutron_get_rate'' None (None, example_world)
     = (Inr \<lparr>content_text = Plain_text ''Error: Authentication failed: 400 - Y'', isError = True\<rparr>,
        Some example_new_client,
        example_world\<lparr>now := 1005, sent := [auth_request example_runtime example_new_client]\<rparr>)"
    using error_propagation [OF example_getClient, of example_runtime "''neutron_get_rate''" None
        example_world] example_auth_failure
    by simp
  have 2: "call_tool example_runtime example_env ''neutron_get_rate'' None
        (Some example_client, example_world)
     = (Inr \<lparr>content_text = Plain_text ''Error: API Error 400: X'', isError = True\<rparr>,
        Some example_client,
        example_world\<lparr>now := 1005,
          sent := [\<lparr>url = ''https://api.neutron.me/api/v2/rate'', http_method = ''GET'',
                    headers = [(''Authorization'', ''Bearer tok-1'')], body = None\<rparr>]\<rparr>)"
    using error_propagation [OF cached, of example_runtime "''neutron_get_rate''" None
        example_world] example_api_failure
    by simp
  have 3: "call_tool example_runtime example_env ''no_such_tool'' None (None, example_world)
     = (Inr \<lparr>content_text = Plain_text ''Error: Unknown tool: no_such_tool'', isError = True\<rparr>,
        Some example_new_client, example_world)"
    using error_propagation [OF example_getClient, of example_runtime "''no_such_tool''" None
        example_world]
    by (simp add: tools_def)
  have 4: "call_tool example_runtime example_env ''neutron_create_lightning_invoice''
        (Some [(''memo'', Str ''coffee'')]) (None, example_world)
     = (Inr \<lparr>content_text = Plain_text ''Error: Provide either amountSats or amountBtc'',
             isError = True\<rparr>,
        Some example_new_client, example_world)"
    using error_propagation [OF example_getClient, of example_runtime
        "''neutron_create_lightning_invoice''" "Some [(''memo'', Str ''coffee'')]" example_world]
    by (simp add: get_prop_def)
  show ?thesis
    using 1 2 3 4 by simp
qed

end
